theory Spec2Isabelle
  imports Main
begin

section \<open>JavaScript values used by both modules\<close>

text \<open>
  An exception object: its \<^verbatim>\<open>name\<close> and its \<^verbatim>\<open>message\<close>.
  \<^verbatim>\<open>new Error(m)\<close> is \<open>JsError ''Error'' m\<close>; reading a property of \<^verbatim>\<open>undefined\<close>
  and calling what is not a function raise a \<^verbatim>\<open>TypeError\<close> (the wording of its
  message is the engine's).
\<close>

datatype js_error = JsError (error_name: string) (error_message: string)

definition Error :: "string \<Rightarrow> js_error" where
  "Error m = JsError ''Error'' m"

definition TypeError :: "string \<Rightarrow> js_error" where
  "TypeError m = JsError ''TypeError'' m"

text \<open>
  A string or \<^verbatim>\<open>undefined\<close> converted to a string, as a property name
  (\<^verbatim>\<open>{[options.language]: v}\<close>, \<^verbatim>\<open>formValues[field.htmlKey]\<close>, \<^verbatim>\<open>forms[formKey]\<close>) and in
  a concatenation: \<^verbatim>\<open>undefined\<close> becomes \<^verbatim>\<open>"undefined"\<close>.
\<close>

definition to_str :: "string option \<Rightarrow> string" where
  "to_str k = (case k of None \<Rightarrow> ''undefined'' | Some s \<Rightarrow> s)"

text \<open>
  A value of the request body: a string, or a value that is not a string (a number, a
  boolean, \<^verbatim>\<open>null\<close>, an array or an object of a JSON body, an array of a repeated form
  field), of which the code uses the truthiness and the conversion to a string. A
  property that the body does not have reads as \<^verbatim>\<open>undefined\<close>, which is \<open>None\<close>.
\<close>

datatype js_value = Str string | NonStr (truthy: bool) (as_string: string)

text \<open>\<^verbatim>\<open>!v\<close>: \<^verbatim>\<open>undefined\<close> and the empty string are falsy.\<close>

definition falsy :: "js_value option \<Rightarrow> bool" where
  "falsy v =
     (case v of None \<Rightarrow> True | Some (Str s) \<Rightarrow> s = [] | Some (NonStr t s) \<Rightarrow> \<not> t)"

text \<open>A value used as a property name: \<^verbatim>\<open>xs[v]\<close> converts \<open>v\<close> to a string.\<close>

definition to_key :: "js_value option \<Rightarrow> string" where
  "to_key v =
     (case v of None \<Rightarrow> ''undefined'' | Some (Str s) \<Rightarrow> s | Some (NonStr t s) \<Rightarrow> s)"

text \<open>
  The decimal numeral of an array index, and the lookup \<^verbatim>\<open>xs[k]\<close> of an array by a
  property name. The element at index \<open>i\<close> is the property named by the numeral of \<open>i\<close>.
  An array has more properties than its elements: its own \<^verbatim>\<open>length\<close>, a number that is
  truthy when the array is not empty, and the properties it inherits from its prototypes,
  all truthy. \<open>array_prototype_names\<close> lists the inherited names that every engine has;
  the further names of an engine are the parameter \<open>inherits\<close>. Any other name reads as
  \<^verbatim>\<open>undefined\<close>.
\<close>

datatype 'a property = Element 'a | NonElement bool | Undefined

definition array_prototype_names :: "string list" where
  "array_prototype_names =
     [''constructor'', ''toString'', ''toLocaleString'', ''valueOf'', ''hasOwnProperty'',
      ''isPrototypeOf'', ''propertyIsEnumerable'', ''__proto__'',
      ''concat'', ''join'', ''pop'', ''push'', ''reverse'', ''shift'', ''slice'', ''sort'',
      ''splice'', ''unshift'', ''indexOf'', ''lastIndexOf'', ''every'', ''some'', ''forEach'',
      ''map'', ''filter'', ''reduce'', ''reduceRight'']"

fun decimal :: "nat \<Rightarrow> string" where
  "decimal n =
     (if n < 10 then [''0123456789'' ! n]
      else decimal (n div 10) @ [''0123456789'' ! (n mod 10)])"

declare decimal.simps [simp del]

definition array_get :: "(string \<Rightarrow> bool) \<Rightarrow> 'a list \<Rightarrow> string \<Rightarrow> 'a property" where
  "array_get inherits xs k =
     (case map_of (zip (map decimal [0 ..< length xs]) xs) k of
        Some x \<Rightarrow> Element x
      | None \<Rightarrow>
          if k = ''length'' then NonElement (xs \<noteq> [])
          else if k \<in> set array_prototype_names \<or> inherits k then NonElement True
          else Undefined)"

section \<open>routes/helpers/forms.js\<close>

subsection \<open>Data\<close>

text \<open>
  One entry of a form definition. \<open>key\<close>, \<open>ftype\<close> and \<open>htmlKey\<close> are \<open>None\<close> where the
  object has no such property; the flags are the truthiness of the properties.
\<close>

record field =
  name :: string
  key :: "string option"
  ftype :: "string option"
  required :: bool
  skipValue :: bool
  flat :: bool
  htmlKey :: "string option"

text \<open>
  The options of \<^verbatim>\<open>parseSubmission\<close> after \<^verbatim>\<open>Object.assign\<close> has filled in the defaults.
  \<open>formDef\<close> is the address of the caller's array in the store (\<open>None\<close>: undefined).
  \<open>skipRequiredCheck\<close> is \<open>None\<close> when the caller passed a falsy value for it explicitly,
  which replaces the default \<^verbatim>\<open>[]\<close>.
\<close>

record options =
  formDef :: "nat option"
  formKey :: "string option"
  language :: "string option"
  skipRequiredCheck :: "string list option"

text \<open>
  The request: the body as the list of its own properties, in key order, and the locale.
  The body is read under the names of the schema's fields and of the implicit fields,
  which are not names of properties that every object inherits.
\<close>

record request =
  body :: "(string \<times> js_value) list"
  req_locale :: string

record captcha =
  questionKey :: string
  answerKey :: string

text \<open>
  \<^verbatim>\<open>config.questionCaptcha\<close>: \<open>forms k\<close> is the truthiness of \<^verbatim>\<open>forms[k]\<close>.
  The configuration file is not part of the sources; it is a parameter.
\<close>

record config =
  forms :: "string \<Rightarrow> bool"
  captchas :: "captcha list"

text \<open>
  The library functions the module calls, as parameters: \<^verbatim>\<open>String.prototype.trim\<close>,
  \<^verbatim>\<open>toUpperCase\<close>, \<^verbatim>\<open>escape-html\<close>, \<^verbatim>\<open>md.render\<close> (text, then the locale),
  \<^verbatim>\<open>urlUtils.normalize\<close>, \<^verbatim>\<open>encodeURI\<close>, \<^verbatim>\<open>Number\<close> and the request's translation
  function \<^verbatim>\<open>req.__\<close> on the keys that are strings; \<open>array_inherits\<close> tells the names of
  the properties that arrays inherit in the engine beyond those of
  \<open>array_prototype_names\<close>. \<open>'n\<close> is the type of JavaScript numbers.
\<close>

record 'n env =
  trim :: "string \<Rightarrow> string"
  toUpperCase :: "string \<Rightarrow> string"
  escapeHTML :: "string \<Rightarrow> string"
  md_render :: "string \<Rightarrow> string \<Rightarrow> string"
  normalize :: "string \<Rightarrow> string"
  encodeURI :: "string \<Rightarrow> string"
  Number :: "string \<Rightarrow> 'n"
  translate :: "string \<Rightarrow> string"
  array_inherits :: "string \<Rightarrow> bool"

text \<open>
  The values stored in \<^verbatim>\<open>formValues\<close>. An object literal is the list of its properties:
  \<open>LangV [(l, s)]\<close> is \<^verbatim>\<open>{[l]: s}\<close>, and \<open>MarkdownV t h\<close> is \<^verbatim>\<open>{text: t, html: h}\<close>.
  \<open>NonStringV\<close> is a value of the body that is not a string, stored as it is.
\<close>

datatype 'n form_value =
    NumberV 'n
  | StringV string
  | NonStringV bool string
  | UndefinedV
  | BooleanV bool
  | LangV "(string \<times> string) list"
  | MarkdownV (md_text: "(string \<times> string) list") (md_html: "(string \<times> string) list")

type_synonym flash_queue = "(string \<times> string) list"

text \<open>The local variables of the loop over the fields, and the request's flash queue.\<close>

record 'n pstate =
  hasRequiredFields :: bool
  formValues :: "string \<rightharpoonup> 'n form_value"
  processedKeys :: "string list"
  flash :: flash_queue

record 'n submission =
  sub_hasRequiredFields :: bool
  sub_hasUnknownFields :: bool
  sub_hasCorrectCaptcha :: "bool option"
  sub_formValues :: "string \<rightharpoonup> 'n form_value"

text \<open>
  What a call can change outside its own variables: the store of arrays (an address is
  an index into it) and the flash queue of the request.
\<close>

record world =
  arrays :: "field list list"
  flashes :: flash_queue

subsection \<open>processCaptchaAnswer\<close>

text \<open>
  \<^verbatim>\<open>x.trim()\<close>: a \<^verbatim>\<open>TypeError\<close> when \<open>x\<close> is \<^verbatim>\<open>undefined\<close> and when \<open>x\<close> is not a string
  (it has no method \<^verbatim>\<open>trim\<close>).
\<close>

definition trimmed :: "'n env \<Rightarrow> js_value option \<Rightarrow> js_error + string" where
  "trimmed E v =
     (case v of
        None \<Rightarrow> Inl (TypeError ''Cannot read property trim of undefined'')
      | Some (Str s) \<Rightarrow> Inr (trim E s)
      | Some (NonStr t s) \<Rightarrow> Inl (TypeError ''trim is not a function''))"

text \<open>
  The result is the exception thrown or the boolean returned, and the flash queue. In
  line 177 the answer is trimmed first. When \<^verbatim>\<open>captchas[id]\<close> is truthy and is not a
  captcha, its \<^verbatim>\<open>answerKey\<close> is \<^verbatim>\<open>undefined\<close>, the translation of \<^verbatim>\<open>undefined\<close> is not a
  string, and taking its upper case throws.
\<close>

definition processCaptchaAnswer ::
  "'n env \<Rightarrow> config \<Rightarrow> request \<Rightarrow> flash_queue \<Rightarrow> (js_error + bool) \<times> flash_queue" where
  "processCaptchaAnswer E C req fl =
     (let cid = map_of (body req) ''captcha-id'';
          answerText = map_of (body req) ''captcha-answer''
      in if falsy answerText then (Inr False, fl)
         else (case array_get (array_inherits E) (captchas C) (to_key cid) of
                 Undefined \<Rightarrow>
                   (Inr False, fl @ [(''pageErrors'', translate E ''unknown captcha'')])
               | NonElement t \<Rightarrow>
                   if \<not> t
                   then (Inr False, fl @ [(''pageErrors'', translate E ''unknown captcha'')])
                   else (case trimmed E answerText of
                           Inl e \<Rightarrow> (Inl e, fl)
                         | Inr a \<Rightarrow>
                             (Inl (TypeError ''Cannot read property toUpperCase of undefined''),
                              fl))
               | Element c \<Rightarrow>
                   (case trimmed E answerText of
                      Inl e \<Rightarrow> (Inl e, fl)
                    | Inr a \<Rightarrow>
                        if toUpperCase E a \<noteq> toUpperCase E (translate E (answerKey c))
                        then (Inr False,
                              fl @ [(''pageErrors'', translate E ''incorrect captcha answer'')])
                        else (Inr True, fl))))"

subsection \<open>parseSubmission\<close>

text \<open>\<^verbatim>\<open>field.key || field.name\<close>: an empty key is falsy.\<close>

definition field_key :: "field \<Rightarrow> string" where
  "field_key f = (case key f of None \<Rightarrow> name f | Some k \<Rightarrow> if k = [] then name f else k)"

text \<open>
  The \<^verbatim>\<open>switch (field.type)\<close>: \<open>v\<close> is \<^verbatim>\<open>req.body[field.name]\<close>. The cases \<^verbatim>\<open>number\<close>,
  \<^verbatim>\<open>url\<close>, \<^verbatim>\<open>text\<close> and \<^verbatim>\<open>markdown\<close> call \<^verbatim>\<open>.trim()\<close> on it.
\<close>

definition transform ::
  "'n env \<Rightarrow> options \<Rightarrow> request \<Rightarrow> field \<Rightarrow> js_value option
     \<Rightarrow> (string \<rightharpoonup> 'n form_value) \<Rightarrow> js_error + (string \<rightharpoonup> 'n form_value)" where
  "transform E opts req f v fv =
     (let k = field_key f; lang = to_str (language opts)
      in if ftype f = Some ''number'' then
           (case trimmed E v of Inl e \<Rightarrow> Inl e
            | Inr t \<Rightarrow> Inr (fv(k \<mapsto> NumberV (Number E t))))
         else if ftype f = Some ''url'' then
           (case trimmed E v of Inl e \<Rightarrow> Inl e
            | Inr t \<Rightarrow> Inr (fv(k \<mapsto> StringV (normalize E t),
                               k \<mapsto> StringV (encodeURI E (normalize E t)))))
         else if ftype f = Some ''text'' then
           (case trimmed E v of Inl e \<Rightarrow> Inl e
            | Inr t \<Rightarrow> Inr (fv(k \<mapsto> LangV [(lang, escapeHTML E t)])))
         else if ftype f = Some ''markdown'' then
           (case trimmed E v of Inl e \<Rightarrow> Inl e
            | Inr t \<Rightarrow>
                if \<not> flat f then
                  Inr (fv(k \<mapsto> MarkdownV [(lang, escapeHTML E t)]
                                         [(lang, md_render E t (req_locale req))]))
                else
                  Inr (fv(k \<mapsto> LangV [(lang, escapeHTML E t)],
                          to_str (htmlKey f) \<mapsto> LangV [(lang, md_render E t (req_locale req))])))
         else if ftype f = Some ''boolean'' then
           Inr (fv(k \<mapsto> BooleanV (\<not> falsy v)))
         else
           Inr (fv(k \<mapsto> (case v of
                             None \<Rightarrow> UndefinedV
                           | Some (Str s) \<Rightarrow> StringV s
                           | Some (NonStr t s) \<Rightarrow> NonStringV t s))))"

text \<open>
  The body of the loop \<^verbatim>\<open>for (let field of formDef)\<close>. \<open>Inl\<close> is an exception thrown
  out of the loop; \<^verbatim>\<open>continue\<close> returns the state reached.
\<close>

definition processField ::
  "'n env \<Rightarrow> options \<Rightarrow> request \<Rightarrow> field \<Rightarrow> 'n pstate \<Rightarrow> js_error + 'n pstate" where
  "processField E opts req f ps =
     (let v = map_of (body req) (name f);
          ps1 = ps\<lparr>processedKeys := remove1 (name f) (processedKeys ps)\<rparr>
      in if (case skipRequiredCheck opts of None \<Rightarrow> True | Some ex \<Rightarrow> name f \<notin> set ex)
            \<and> falsy v \<and> required f
         then Inr (ps1\<lparr>flash := flash ps1 @ [(''pageErrors'', translate E (''need '' @ name f))],
                       hasRequiredFields := False\<rparr>)
         else if skipValue f then Inr ps1
         else (case skipRequiredCheck opts of
                 None \<Rightarrow> Inl (TypeError ''Cannot read property indexOf of undefined'')
               | Some ex \<Rightarrow>
                   if name f \<in> set ex then Inr ps1
                   else (case transform E opts req f v (formValues ps1) of
                           Inl e \<Rightarrow> Inl e
                         | Inr fv \<Rightarrow> Inr (ps1\<lparr>formValues := fv\<rparr>))))"

text \<open>
  The loop. A throw leaves the flash queue as it was before the field that threw (a
  field that throws queues nothing).
\<close>

fun processFields ::
  "'n env \<Rightarrow> options \<Rightarrow> request \<Rightarrow> field list \<Rightarrow> 'n pstate
     \<Rightarrow> (js_error + 'n pstate) \<times> flash_queue" where
  "processFields E opts req [] ps = (Inr ps, flash ps)"
| "processFields E opts req (f # fs) ps =
     (case processField E opts req f ps of
        Inl e \<Rightarrow> (Inl e, flash ps)
      | Inr ps' \<Rightarrow> processFields E opts req fs ps')"

definition csrf_field :: field where
  "csrf_field = \<lparr>name = ''_csrf'', key = None, ftype = None, required = True,
                  skipValue = True, flat = False, htmlKey = None\<rparr>"

definition captcha_id_field :: field where
  "captcha_id_field = \<lparr>name = ''captcha-id'', key = None, ftype = None, required = True,
                        skipValue = False, flat = False, htmlKey = None\<rparr>"

definition captcha_answer_field :: field where
  "captcha_answer_field = \<lparr>name = ''captcha-answer'', key = None, ftype = None,
                            required = True, skipValue = False, flat = False, htmlKey = None\<rparr>"

text \<open>
  \<^verbatim>\<open>Object.assign([], options.formDef)\<close> allocates a new array and copies the elements of
  the caller's array into it (none when \<^verbatim>\<open>formDef\<close> is undefined); \<^verbatim>\<open>push\<close> appends to
  the array at an address, in place. Every address a caller holds is an index into the
  store; \<open>array_at\<close> reads no element at any other.
\<close>

definition array_at :: "field list list \<Rightarrow> nat option \<Rightarrow> field list" where
  "array_at st a = (case a of None \<Rightarrow> [] | Some i \<Rightarrow> if i < length st then st ! i else [])"

definition assign_copy :: "field list list \<Rightarrow> nat option \<Rightarrow> field list list \<times> nat" where
  "assign_copy st a = (st @ [array_at st a], length st)"

definition push :: "field list list \<Rightarrow> nat \<Rightarrow> field list \<Rightarrow> field list list" where
  "push st a xs = st[a := st ! a @ xs]"

text \<open>The local variables before the loop; \<open>fl\<close> is the flash queue at that point.\<close>

definition initial_state :: "request \<Rightarrow> flash_queue \<Rightarrow> 'n pstate" where
  "initial_state req fl =
     \<lparr>hasRequiredFields = True, formValues = Map.empty,
      processedKeys = map fst (body req), flash = fl\<rparr>"

text \<open>
  The loop and the result, after the CAPTCHA has been processed: \<open>cap\<close> is
  \<^verbatim>\<open>hasCorrectCaptcha\<close>, \<open>fl\<close> the flash queue and \<open>st\<close> the store at that point.
\<close>

definition parse_fields ::
  "'n env \<Rightarrow> request \<Rightarrow> options \<Rightarrow> field list \<Rightarrow> bool option \<Rightarrow> flash_queue
     \<Rightarrow> field list list \<Rightarrow> (js_error + 'n submission) \<times> world" where
  "parse_fields E req opts fs cap fl1 st =
     (case processFields E opts req fs (initial_state req fl1) of
        (Inl e, fl) \<Rightarrow> (Inl e, \<lparr>arrays = st, flashes = fl\<rparr>)
      | (Inr ps, fl) \<Rightarrow>
          (let unknown = (processedKeys ps \<noteq> []);
               fl' = (if unknown
                      then fl @ [(''pageErrors'', translate E ''unexpected form data'')]
                      else fl)
           in (Inr \<lparr>sub_hasRequiredFields = hasRequiredFields ps,
                    sub_hasUnknownFields = unknown,
                    sub_hasCorrectCaptcha = cap,
                    sub_formValues = formValues ps\<rparr>,
               \<lparr>arrays = st, flashes = fl'\<rparr>)))"

text \<open>
  \<^verbatim>\<open>parseSubmission\<close>. When the CAPTCHA is enabled, the two fields are pushed first and
  then \<^verbatim>\<open>processCaptchaAnswer\<close> is called; an exception it throws leaves the function
  before the loop.
\<close>

definition parseSubmission ::
  "'n env \<Rightarrow> config \<Rightarrow> request \<Rightarrow> options \<Rightarrow> world \<Rightarrow> (js_error + 'n submission) \<times> world" where
  "parseSubmission E C req opts w =
     (let (st1, a) = assign_copy (arrays w) (formDef opts);
          st2 = push st1 a [csrf_field]
      in if forms C (to_str (formKey opts))
         then (let st3 = push st2 a [captcha_id_field, captcha_answer_field]
               in case processCaptchaAnswer E C req (flashes w) of
                    (Inl e, fl) \<Rightarrow> (Inl e, \<lparr>arrays = st3, flashes = fl\<rparr>)
                  | (Inr b, fl) \<Rightarrow> parse_fields E req opts (st3 ! a) (Some b) fl st3)
         else parse_fields E req opts (st2 ! a) None (flashes w) st2)"

section \<open>routes/handlers/form-handler.js\<close>

subsection \<open>Data\<close>

text \<open>A loaded resource: \<open>revDeleted\<close> is the truthiness of \<^verbatim>\<open>data._revDeleted\<close>.\<close>

record resource =
  revDeleted :: bool

text \<open>
  The functions a handler is configured with, over a state \<open>'w\<close> that they may change
  (the session, the response). A pre-flight check returns a boolean; the loader's
  promise rejects (\<open>Inl\<close>) or resolves to a resource or to nothing (\<open>Inr None\<close>); the
  permission check and a verb handler get the resource as argument, or nothing (a verb
  handler when the action has no loader). The functions are total: one that throws is
  not modelled.
\<close>

type_synonym 'w check = "'w \<Rightarrow> bool \<times> 'w"
type_synonym 'w loader = "'w \<Rightarrow> (js_error + resource option) \<times> 'w"
type_synonym 'w permission = "resource option \<Rightarrow> 'w \<Rightarrow> bool \<times> 'w"
type_synonym 'w verb = "resource option \<Rightarrow> 'w \<Rightarrow> 'w"

record 'w action_spec =
  GET :: "'w verb option"
  POST :: "'w verb option"
  preFlightChecks :: "'w check list"
  loadData :: "'w loader option"
  resourcePermissionCheck :: "'w permission option"
  titleKey :: "string option"

text \<open>
  The handler object. \<open>actions\<close> lists the properties of \<^verbatim>\<open>this.actions\<close> in order;
  \<open>this_loadData\<close> is the method \<^verbatim>\<open>this.loadData\<close>, \<open>http_method\<close> is \<^verbatim>\<open>this.method\<close>,
  \<open>resource_id\<close> is \<^verbatim>\<open>this.id\<close> and \<open>form_type\<close> is \<^verbatim>\<open>this.type\<close>. \<open>object_inherits\<close> gives
  the functions that objects inherit from \<^verbatim>\<open>Object.prototype\<close> in the engine beyond
  those that every engine has, by name, as they act when they are called in the place
  of a verb handler.
\<close>

record 'w handler =
  actions :: "(string \<times> 'w action_spec) list"
  documentNotFoundTemplate :: string
  documentNotFoundTitleKey :: string
  action :: string
  http_method :: string
  resource_id :: "string option"
  form_type :: "string option"
  this_loadData :: "'w loader option"
  object_inherits :: "string \<Rightarrow> 'w verb option"

text \<open>
  What the constructor finds: the methods of the class and of its subclasses that it
  reads, and the further functions of \<^verbatim>\<open>Object.prototype\<close> in the engine.
\<close>

record 'w methods =
  create_GET :: "'w verb option"
  create_POST :: "'w verb option"
  edit_GET :: "'w verb option"
  edit_POST :: "'w verb option"
  delete_GET :: "'w verb option"
  delete_POST :: "'w verb option"
  loadData_method :: "'w loader option"
  userIsSignedIn :: "'w check"
  userCanEdit :: "'w permission"
  userCanDelete :: "'w permission"
  prototype_functions :: "string \<Rightarrow> 'w verb option"

text \<open>
  The constructor's options \<^verbatim>\<open>action\<close>, \<^verbatim>\<open>method\<close> and \<^verbatim>\<open>id\<close>; \<open>None\<close> where the caller
  gives none.
\<close>

record handler_options =
  opt_action :: "string option"
  opt_method :: "string option"
  opt_id :: "string option"

text \<open>The context object passed to the template.\<close>

record render_context =
  ctx_titleKey :: "string option"
  ctx_id :: "string option"

text \<open>
  What \<^verbatim>\<open>execute\<close> calls, in order: the pre-flight check at an index of the action's
  list, \<^verbatim>\<open>this.loadData()\<close>, the permission check, the verb handler of a method,
  \<^verbatim>\<open>res.status\<close>, \<^verbatim>\<open>render.template\<close> and \<^verbatim>\<open>next\<close>.
\<close>

datatype call =
    CheckCall nat
  | LoadDataCall
  | PermissionCall resource
  | VerbCall string "resource option"
  | Status nat
  | Template string render_context
  | NextCall js_error

subsection \<open>The constructor and addPreFlightCheck\<close>

text \<open>
  The constructor builds the action table from the methods, sets the template and the
  title of the not-found page, and takes the action, the method and the id from the
  options, with the defaults \<^verbatim>\<open>create\<close> and \<^verbatim>\<open>GET\<close>. Its test that the request, the response
  and the continuation are given is not modelled.
\<close>

definition FormHandler :: "'w methods \<Rightarrow> handler_options \<Rightarrow> 'w handler" where
  "FormHandler M opts =
     \<lparr>actions =
        [(''create'',
          \<lparr>GET = create_GET M, POST = create_POST M,
           preFlightChecks = [userIsSignedIn M],
           loadData = None, resourcePermissionCheck = None, titleKey = None\<rparr>),
         (''edit'',
          \<lparr>GET = edit_GET M, POST = edit_POST M,
           preFlightChecks = [userIsSignedIn M],
           loadData = loadData_method M,
           resourcePermissionCheck = Some (userCanEdit M), titleKey = None\<rparr>),
         (''delete'',
          \<lparr>GET = delete_GET M, POST = delete_POST M,
           preFlightChecks = [userIsSignedIn M],
           loadData = loadData_method M,
           resourcePermissionCheck = Some (userCanDelete M), titleKey = None\<rparr>)],
      documentNotFoundTemplate = ''404'',
      documentNotFoundTitleKey = ''page not found title'',
      action = (case opt_action opts of None \<Rightarrow> ''create'' | Some a \<Rightarrow> a),
      http_method = (case opt_method opts of None \<Rightarrow> ''GET'' | Some m \<Rightarrow> m),
      resource_id = opt_id opts,
      form_type = None,
      this_loadData = loadData_method M,
      object_inherits = prototype_functions M\<rparr>"

definition addPreFlightCheck :: "'w check \<Rightarrow> 'w handler \<Rightarrow> 'w handler" where
  "addPreFlightCheck c h =
     h\<lparr>actions :=
         map (\<lambda>(n, a). (n, a\<lparr>preFlightChecks := preFlightChecks a @ [c]\<rparr>)) (actions h)\<rparr>"

subsection \<open>execute\<close>

text \<open>
  \<^verbatim>\<open>this.actions[this.action][this.method]\<close> when it is a function (line 73 tests its
  \<^verbatim>\<open>typeof\<close>), as it acts when it is called as the verb handler. An action object has the
  properties \<^verbatim>\<open>GET\<close>, \<^verbatim>\<open>POST\<close>, \<^verbatim>\<open>preFlightChecks\<close> (an array) and \<^verbatim>\<open>titleKey\<close> (a string or
  \<^verbatim>\<open>undefined\<close>), it may have the functions \<^verbatim>\<open>loadData\<close> and \<^verbatim>\<open>resourcePermissionCheck\<close>, and
  under any other name it has what it inherits. The loader called as a handler runs and
  its promise is dropped; the permission check called as a handler runs and its result
  is dropped. \<open>object_prototype_functions\<close> lists the functions that every object
  inherits in every engine; called as a handler they change nothing.
\<close>

definition object_prototype_functions :: "string list" where
  "object_prototype_functions =
     [''constructor'', ''toString'', ''toLocaleString'', ''valueOf'', ''hasOwnProperty'',
      ''isPrototypeOf'', ''propertyIsEnumerable'']"

definition verb_handler :: "'w handler \<Rightarrow> 'w action_spec \<Rightarrow> string \<Rightarrow> 'w verb option" where
  "verb_handler h a m =
     (if m = ''GET'' then GET a
      else if m = ''POST'' then POST a
      else if m = ''preFlightChecks'' \<or> m = ''titleKey'' then None
      else if m = ''loadData'' then map_option (\<lambda>ld d w. snd (ld w)) (loadData a)
      else if m = ''resourcePermissionCheck''
           then map_option (\<lambda>p d w. snd (p d w)) (resourcePermissionCheck a)
      else if m \<in> set object_prototype_functions then Some (\<lambda>d w. w)
      else object_inherits h m)"

text \<open>
  The loop over the pre-flight checks: \<open>i\<close> is the index of the next check, \<open>ok\<close> is
  \<^verbatim>\<open>mayProceed\<close>, \<open>cs\<close> the calls made so far.
\<close>

fun run_checks ::
  "'w check list \<Rightarrow> nat \<Rightarrow> bool \<Rightarrow> call list \<Rightarrow> 'w \<Rightarrow> bool \<times> call list \<times> 'w" where
  "run_checks [] i ok cs w = (ok, cs, w)"
| "run_checks (c # rest) i ok cs w =
     (let (result, w') = c w
      in run_checks rest (Suc i) (if \<not> result then False else ok) (cs @ [CheckCall i]) w')"

text \<open>
  The callback of \<^verbatim>\<open>then\<close>: the first component is the exception it throws, if any
  (reading \<^verbatim>\<open>_revDeleted\<close> of nothing throws a \<^verbatim>\<open>TypeError\<close>).
\<close>

definition on_data ::
  "'w handler \<Rightarrow> 'w action_spec \<Rightarrow> 'w verb \<Rightarrow> resource option \<Rightarrow> 'w
     \<Rightarrow> js_error option \<times> call list \<times> 'w" where
  "on_data h a v data w =
     (case data of
        None \<Rightarrow> (Some (TypeError ''Cannot read property _revDeleted of undefined''), [], w)
      | Some d \<Rightarrow>
          if revDeleted d then (Some (Error ''deleted''), [], w)
          else (case resourcePermissionCheck a of
                  None \<Rightarrow> (None, [VerbCall (http_method h) (Some d)], v (Some d) w)
                | Some p \<Rightarrow>
                    (let (allowed, w') = p (Some d) w
                     in if allowed
                        then (None, [PermissionCall d, VerbCall (http_method h) (Some d)],
                              v (Some d) w')
                        else (None, [PermissionCall d], w'))))"

text \<open>The callback of \<^verbatim>\<open>catch\<close>.\<close>

definition on_error :: "'w handler \<Rightarrow> js_error \<Rightarrow> call list" where
  "on_error h e =
     (if error_name e = ''DocumentNotFoundError'' \<or> error_message e = ''deleted''
      then [Status 404,
            Template (documentNotFoundTemplate h)
              \<lparr>ctx_titleKey = Some (documentNotFoundTitleKey h), ctx_id = resource_id h\<rparr>]
      else [NextCall e])"

text \<open>
  \<^verbatim>\<open>execute\<close>: the exception it throws or its normal return, the calls it made (the
  callbacks of the promise included, in the order they run) and the state reached.
\<close>

definition execute :: "'w handler \<Rightarrow> 'w \<Rightarrow> (js_error + unit) \<times> call list \<times> 'w" where
  "execute h w =
     (case map_of (actions h) (action h) of
        None \<Rightarrow> (Inl (Error (''Did not recognize form action: '' @ to_str (form_type h))), [], w)
      | Some a \<Rightarrow>
          (case verb_handler h a (http_method h) of
             None \<Rightarrow> (Inl (Error ''No defined handler for this method.''), [], w)
           | Some v \<Rightarrow>
               (let (mayProceed, cs, w1) = run_checks (preFlightChecks a) 0 True [] w
                in if \<not> mayProceed then (Inr (), cs, w1)
                   else (case loadData a of
                           None \<Rightarrow> (Inr (), cs @ [VerbCall (http_method h) None], v None w1)
                         | Some _ \<Rightarrow>
                             (case this_loadData h of
                                None \<Rightarrow> (Inl (TypeError ''this.loadData is not a function''), cs, w1)
                              | Some ld \<Rightarrow>
                                  (let (r, w2) = ld w1
                                   in case r of
                                        Inl e \<Rightarrow>
                                          (Inr (), cs @ [LoadDataCall] @ on_error h e, w2)
                                      | Inr data \<Rightarrow>
                                          (let (thrown, cs2, w3) = on_data h a v data w2
                                           in case thrown of
                                                None \<Rightarrow> (Inr (), cs @ [LoadDataCall] @ cs2, w3)
                                              | Some e \<Rightarrow>
                                                  (Inr (),
                                                   cs @ [LoadDataCall] @ cs2 @ on_error h e,
                                                   w3))))))))"

section \<open>Notions used to state the properties\<close>

text \<open>
  The array the loop of \<^verbatim>\<open>parseSubmission\<close> iterates: the elements of the caller's form
  definition, then the implicit fields.
\<close>

definition schema_copy :: "config \<Rightarrow> options \<Rightarrow> world \<Rightarrow> field list" where
  "schema_copy C opts w =
     array_at (arrays w) (formDef opts) @ csrf_field #
       (if forms C (to_str (formKey opts)) then [captcha_id_field, captcha_answer_field] else [])"

text \<open>A field is exempted when its name is listed in \<^verbatim>\<open>options.skipRequiredCheck\<close>.\<close>

definition exempt :: "options \<Rightarrow> field \<Rightarrow> bool" where
  "exempt opts f = (case skipRequiredCheck opts of None \<Rightarrow> False | Some ex \<Rightarrow> name f \<in> set ex)"

text \<open>
  The keys of \<^verbatim>\<open>formValues\<close> that the \<^verbatim>\<open>switch\<close> assigns for a field, and whether a field
  can assign a key at all: it does not when it is marked \<^verbatim>\<open>skipValue\<close> or exempted.
\<close>

definition written_keys :: "field \<Rightarrow> string set" where
  "written_keys f =
     (if ftype f = Some ''markdown'' \<and> flat f then {field_key f, to_str (htmlKey f)}
      else {field_key f})"

definition may_write :: "options \<Rightarrow> field \<Rightarrow> string \<Rightarrow> bool" where
  "may_write opts g k = (\<not> skipValue g \<and> \<not> exempt opts g \<and> k \<in> written_keys g)"

text \<open>
  A field is missing when it is required, not exempted and absent or empty in the body:
  the test of lines 71 to 73.
\<close>

definition missing :: "options \<Rightarrow> request \<Rightarrow> field \<Rightarrow> bool" where
  "missing opts req f =
     (required f \<and> \<not> exempt opts f \<and> falsy (map_of (body req) (name f)))"

text \<open>
  The fields at which the loop throws: a field that reaches the test of line 82 when
  \<^verbatim>\<open>skipRequiredCheck\<close> is not an array, and a field that reaches the \<^verbatim>\<open>switch\<close> with a
  type that calls \<^verbatim>\<open>.trim()\<close> and a value that is not a string.
\<close>

definition is_string :: "js_value option \<Rightarrow> bool" where
  "is_string v = (case v of Some (Str s) \<Rightarrow> True | _ \<Rightarrow> False)"

definition throws_at :: "options \<Rightarrow> request \<Rightarrow> field \<Rightarrow> bool" where
  "throws_at opts req f =
     (\<not> skipValue f \<and> \<not> missing opts req f \<and>
      (case skipRequiredCheck opts of
         None \<Rightarrow> True
       | Some ex \<Rightarrow>
           name f \<notin> set ex \<and> \<not> is_string (map_of (body req) (name f)) \<and>
           ftype f \<in> {Some ''number'', Some ''url'', Some ''text'', Some ''markdown''}))"

text \<open>
  The results that the pre-flight checks of a list return when they run in order, each in
  the state the one before left, and the state after the last.
\<close>

fun check_results :: "'w check list \<Rightarrow> 'w \<Rightarrow> bool list" where
  "check_results [] w = []"
| "check_results (c # rest) w = (let (result, w') = c w in result # check_results rest w')"

fun after_checks :: "'w check list \<Rightarrow> 'w \<Rightarrow> 'w" where
  "after_checks [] w = w"
| "after_checks (c # rest) w = (let (result, w') = c w in after_checks rest w')"

text \<open>\<^verbatim>\<open>this.actions[this.action].titleKey\<close>, the title configured for the handler's action.\<close>

definition action_titleKey :: "'w handler \<Rightarrow> string option" where
  "action_titleKey h = (case map_of (actions h) (action h) of None \<Rightarrow> None | Some a \<Rightarrow> titleKey a)"

section \<open>Concrete inputs\<close>

text \<open>
  An instance of the library functions on ASCII strings: trimming of spaces, upper case
  of the letters a to z, escaping of the characters \<^verbatim>\<open><\<close>, \<^verbatim>\<open>>\<close> and \<^verbatim>\<open>&\<close>, a renderer
  that wraps its input in a paragraph, a translation that returns its key, and two
  further names that arrays inherit.
\<close>

definition sample_env :: "nat env" where
  "sample_env =
     \<lparr>trim = (\<lambda>s. rev (dropWhile (\<lambda>c. c = CHR '' '') (rev (dropWhile (\<lambda>c. c = CHR '' '') s)))),
      toUpperCase = map (\<lambda>c. case map_of (zip ''abcdefghijklmnopqrstuvwxyz''
                                                     ''ABCDEFGHIJKLMNOPQRSTUVWXYZ'') c of
                                  None \<Rightarrow> c | Some u \<Rightarrow> u),
      escapeHTML = concat \<circ> map (\<lambda>c. if c = CHR ''<'' then ''&lt;'' else if c = CHR ''>'' then ''&gt;''
                                        else if c = CHR ''&'' then ''&amp;'' else [c]),
      md_render = (\<lambda>s l. ''<p>'' @ s @ ''</p>''),
      normalize = (\<lambda>s. s),
      encodeURI = (\<lambda>s. s),
      Number = length,
      translate = (\<lambda>s. s),
      array_inherits = (\<lambda>k. k \<in> set [''find'', ''includes''])\<rparr>"

text \<open>
  A form with the CAPTCHA enabled and no schema of the caller, submitted with the token,
  the id of the only captcha and its answer in lower case between spaces.
\<close>

definition captcha_config :: config where
  "captcha_config =
     \<lparr>forms = (\<lambda>k. k = ''new review''),
      captchas = [\<lparr>questionKey = ''captcha question 1'', answerKey = ''Paris''\<rparr>]\<rparr>"

definition captcha_request :: request where
  "captcha_request =
     \<lparr>body = [(''_csrf'', Str ''token''), (''captcha-id'', Str ''0''), (''captcha-answer'', Str '' paris '')],
      req_locale = ''en''\<rparr>"

definition captcha_options :: options where
  "captcha_options =
     \<lparr>formDef = None, formKey = Some ''new review'', language = Some ''en'',
      skipRequiredCheck = Some []\<rparr>"

definition empty_world :: world where
  "empty_world = \<lparr>arrays = [], flashes = []\<rparr>"

definition captcha_result :: "nat submission" where
  "captcha_result =
     \<lparr>sub_hasRequiredFields = True, sub_hasUnknownFields = False,
      sub_hasCorrectCaptcha = Some True,
      sub_formValues = [''captcha-id'' \<mapsto> StringV ''0'',
                        ''captcha-answer'' \<mapsto> StringV '' paris '']\<rparr>"

text \<open>
  A schema with one optional \<^verbatim>\<open>boolean\<close> field, submitted with the token alone, without
  CAPTCHA.
\<close>

definition no_captcha_config :: config where
  "no_captcha_config = \<lparr>forms = (\<lambda>k. False), captchas = []\<rparr>"

definition subscribe_field :: field where
  "subscribe_field = \<lparr>name = ''subscribe'', key = None, ftype = Some ''boolean'', required = False,
                       skipValue = False, flat = False, htmlKey = None\<rparr>"

definition token_request :: request where
  "token_request = \<lparr>body = [(''_csrf'', Str ''token'')], req_locale = ''en''\<rparr>"

definition plain_options :: options where
  "plain_options = \<lparr>formDef = Some 0, formKey = None, language = Some ''en'',
                     skipRequiredCheck = Some []\<rparr>"

definition subscribe_world :: world where
  "subscribe_world = \<lparr>arrays = [[subscribe_field]], flashes = []\<rparr>"

text \<open>
  A schema with a required \<^verbatim>\<open>markdown\<close> field stored under another key and an optional
  flat \<^verbatim>\<open>markdown\<close> field, submitted with both values; the same schema with the first
  field marked \<^verbatim>\<open>skipValue\<close>.
\<close>

definition review_field :: field where
  "review_field = \<lparr>name = ''review-text'', key = Some ''review'', ftype = Some ''markdown'',
                    required = True, skipValue = False, flat = False, htmlKey = None\<rparr>"

definition bio_field :: field where
  "bio_field = \<lparr>name = ''bio'', key = None, ftype = Some ''markdown'',
                 required = False, skipValue = False, flat = True, htmlKey = Some ''bioHTML''\<rparr>"

definition review_request :: request where
  "review_request =
     \<lparr>body = [(''_csrf'', Str ''token''), (''review-text'', Str '' a <b> & c ''), (''bio'', Str ''me '')],
      req_locale = ''de''\<rparr>"

definition review_world :: world where
  "review_world = \<lparr>arrays = [[review_field, bio_field]], flashes = []\<rparr>"

definition skipped_review_world :: world where
  "skipped_review_world =
     \<lparr>arrays = [[review_field\<lparr>skipValue := True\<rparr>, bio_field]], flashes = []\<rparr>"

definition review_result :: "nat submission" where
  "review_result =
     \<lparr>sub_hasRequiredFields = True, sub_hasUnknownFields = False, sub_hasCorrectCaptcha = None,
      sub_formValues =
        [''review'' \<mapsto> MarkdownV [(''en'', ''a &lt;b&gt; &amp; c'')] [(''en'', ''<p>a <b> & c</p>'')],
         ''bio'' \<mapsto> LangV [(''en'', ''me'')],
         ''bioHTML'' \<mapsto> LangV [(''en'', ''<p>me</p>'')]]\<rparr>"

definition skipped_review_result :: "nat submission" where
  "skipped_review_result =
     \<lparr>sub_hasRequiredFields = True, sub_hasUnknownFields = False, sub_hasCorrectCaptcha = None,
      sub_formValues = [''bio'' \<mapsto> LangV [(''en'', ''me'')],
                        ''bioHTML'' \<mapsto> LangV [(''en'', ''<p>me</p>'')]]\<rparr>"

text \<open>
  A schema with one required \<^verbatim>\<open>text\<close> field that the caller exempts, submitted without it;
  and a submission with an empty body and no schema of the caller.
\<close>

definition title_field :: field where
  "title_field = \<lparr>name = ''title'', key = None, ftype = Some ''text'', required = True,
                   skipValue = False, flat = False, htmlKey = None\<rparr>"

definition exempt_options :: options where
  "exempt_options = \<lparr>formDef = Some 0, formKey = None, language = Some ''en'',
                      skipRequiredCheck = Some [''title'']\<rparr>"

definition title_world :: world where
  "title_world = \<lparr>arrays = [[title_field]], flashes = []\<rparr>"

definition exempt_result :: "nat submission" where
  "exempt_result =
     \<lparr>sub_hasRequiredFields = True, sub_hasUnknownFields = False, sub_hasCorrectCaptcha = None,
      sub_formValues = Map.empty\<rparr>"

definition empty_request :: request where
  "empty_request = \<lparr>body = [], req_locale = ''en''\<rparr>"

definition no_token_result :: "nat submission" where
  "no_token_result =
     \<lparr>sub_hasRequiredFields = False, sub_hasUnknownFields = False, sub_hasCorrectCaptcha = None,
      sub_formValues = Map.empty\<rparr>"

definition no_schema_options :: options where
  "no_schema_options = \<lparr>formDef = None, formKey = None, language = Some ''en'',
                         skipRequiredCheck = Some []\<rparr>"

text \<open>
  Two submissions to the form with the CAPTCHA: one whose captcha id is \<^verbatim>\<open>length\<close>, one
  whose answer is the array of a field sent twice. A schema with an optional \<^verbatim>\<open>text\<close> field before the optional \<^verbatim>\<open>boolean\<close> field; options whose
  \<^verbatim>\<open>skipRequiredCheck\<close> is \<^verbatim>\<open>undefined\<close>; and a submission with the exempted field.
\<close>

definition length_request :: request where
  "length_request =
     \<lparr>body = [(''_csrf'', Str ''token''), (''captcha-id'', Str ''length''),
              (''captcha-answer'', Str ''Paris'')],
      req_locale = ''en''\<rparr>"

definition array_answer_request :: request where
  "array_answer_request =
     \<lparr>body = [(''_csrf'', Str ''token''), (''captcha-id'', Str ''0''),
              (''captcha-answer'', NonStr True ''Paris,Paris'')],
      req_locale = ''en''\<rparr>"

definition title_optional_field :: field where
  "title_optional_field = \<lparr>name = ''title'', key = None, ftype = Some ''text'', required = False,
                            skipValue = False, flat = False, htmlKey = None\<rparr>"

definition unguarded_options :: options where
  "unguarded_options = \<lparr>formDef = Some 0, formKey = None, language = Some ''en'',
                         skipRequiredCheck = None\<rparr>"

definition title_subscribe_world :: world where
  "title_subscribe_world = \<lparr>arrays = [[title_optional_field, subscribe_field]], flashes = []\<rparr>"

definition title_request :: request where
  "title_request =
     \<lparr>body = [(''_csrf'', Str ''token''), (''title'', Str ''Hello'')], req_locale = ''en''\<rparr>"

text \<open>
  Handlers over a state that logs the functions called: the methods of a subclass (with
  no \<^verbatim>\<open>delete_POST\<close>), whose sign-in check returns \<open>signed_in\<close> and whose loader resolves
  to a resource with \<^verbatim>\<open>_revDeleted\<close> set to \<open>deleted\<close>, in an engine with no further
  inherited functions; a subclass constructor that gives every action a title; and
  handlers built by the constructor.
\<close>

definition sample_methods :: "bool \<Rightarrow> bool \<Rightarrow> string list methods" where
  "sample_methods signed_in deleted =
     \<lparr>create_GET = Some (\<lambda>d w. w @ [''create_GET'']),
      create_POST = Some (\<lambda>d w. w @ [''create_POST'']),
      edit_GET = Some (\<lambda>d w. w @ [''edit_GET'']),
      edit_POST = Some (\<lambda>d w. w @ [''edit_POST'']),
      delete_GET = Some (\<lambda>d w. w @ [''delete_GET'']),
      delete_POST = None,
      loadData_method = Some (\<lambda>w. (Inr (Some \<lparr>revDeleted = deleted\<rparr>), w @ [''loadData''])),
      userIsSignedIn = (\<lambda>w. (signed_in, w @ [''userIsSignedIn''])),
      userCanEdit = (\<lambda>d w. (True, w @ [''userCanEdit''])),
      userCanDelete = (\<lambda>d w. (True, w @ [''userCanDelete''])),
      prototype_functions = (\<lambda>m. None)\<rparr>"

definition with_titleKeys :: "'w handler \<Rightarrow> 'w handler" where
  "with_titleKeys h =
     h\<lparr>actions := map (\<lambda>(n, a). (n, a\<lparr>titleKey := Some (n @ '' review title'')\<rparr>)) (actions h)\<rparr>"

definition edit_handler :: "bool \<Rightarrow> bool \<Rightarrow> string list handler" where
  "edit_handler signed_in deleted =
     with_titleKeys
       (addPreFlightCheck (\<lambda>w. (True, w @ [''userIsTrusted'']))
          (FormHandler (sample_methods signed_in deleted)
             \<lparr>opt_action = Some ''edit'', opt_method = Some ''GET'', opt_id = Some ''42''\<rparr>))"

definition upload_handler :: "string list handler" where
  "upload_handler =
     FormHandler (sample_methods True False)
       \<lparr>opt_action = Some ''upload'', opt_method = Some ''GET'', opt_id = None\<rparr>"

definition delete_post_handler :: "string list handler" where
  "delete_post_handler =
     FormHandler (sample_methods True False)
       \<lparr>opt_action = Some ''delete'', opt_method = Some ''POST'', opt_id = Some ''42''\<rparr>"

definition edit_spec :: "bool \<Rightarrow> bool \<Rightarrow> string list action_spec" where
  "edit_spec signed_in deleted =
     \<lparr>GET = Some (\<lambda>d w. w @ [''edit_GET'']), POST = Some (\<lambda>d w. w @ [''edit_POST'']),
      preFlightChecks = [\<lambda>w. (signed_in, w @ [''userIsSignedIn'']),
                         \<lambda>w. (True, w @ [''userIsTrusted''])],
      loadData = Some (\<lambda>w. (Inr (Some \<lparr>revDeleted = deleted\<rparr>), w @ [''loadData''])),
      resourcePermissionCheck = Some (\<lambda>d w. (True, w @ [''userCanEdit''])),
      titleKey = Some ''edit review title''\<rparr>"

definition delete_spec :: "string list action_spec" where
  "delete_spec =
     \<lparr>GET = Some (\<lambda>d w. w @ [''delete_GET'']), POST = None,
      preFlightChecks = [\<lambda>w. (True, w @ [''userIsSignedIn''])],
      loadData = Some (\<lambda>w. (Inr (Some \<lparr>revDeleted = False\<rparr>), w @ [''loadData''])),
      resourcePermissionCheck = Some (\<lambda>d w. (True, w @ [''userCanDelete''])),
      titleKey = None\<rparr>"

definition put_handler :: "string list handler" where
  "put_handler =
     FormHandler (sample_methods True False)
       \<lparr>opt_action = Some ''create'', opt_method = Some ''PUT'', opt_id = None\<rparr>"

definition toString_handler :: "string list handler" where
  "toString_handler =
     FormHandler (sample_methods True False)
       \<lparr>opt_action = Some ''create'', opt_method = Some ''toString'', opt_id = None\<rparr>"

definition create_spec :: "string list action_spec" where
  "create_spec =
     \<lparr>GET = Some (\<lambda>d w. w @ [''create_GET'']), POST = Some (\<lambda>d w. w @ [''create_POST'']),
      preFlightChecks = [\<lambda>w. (True, w @ [''userIsSignedIn''])],
      loadData = None, resourcePermissionCheck = None, titleKey = None\<rparr>"

section \<open>Properties of routes/helpers/forms.js\<close>

subsection \<open>The store and the result of parseSubmission\<close>

lemma parse_fields_arrays: "arrays (snd (parse_fields E req opts fs cap fl st)) = st"
  by (simp add: parse_fields_def Let_def split: prod.splits sum.splits)

lemma parseSubmission_arrays:
  "arrays (snd (parseSubmission E C req opts w)) = arrays w @ [schema_copy C opts w]"
  unfolding parseSubmission_def schema_copy_def
  by (simp add: parse_fields_arrays assign_copy_def push_def Let_def nth_append
        split: prod.splits sum.splits)

text \<open>The flash queue before the loop of a call whose CAPTCHA processing does not throw.\<close>

lemma parseSubmission_result:
  "fst (parseSubmission E C req opts w) =
     (if forms C (to_str (formKey opts))
      then (case fst (processCaptchaAnswer E C req (flashes w)) of
              Inl e \<Rightarrow> Inl e
            | Inr b \<Rightarrow>
                fst (parse_fields E req opts (schema_copy C opts w) (Some b)
                       (snd (processCaptchaAnswer E C req (flashes w))) []))
      else fst (parse_fields E req opts (schema_copy C opts w) None (flashes w) []))"
  unfolding parseSubmission_def schema_copy_def
  by (simp add: parse_fields_def assign_copy_def push_def Let_def nth_append
        split: prod.splits sum.splits)

lemma parseSubmission_flashes:
  "flashes (snd (parseSubmission E C req opts w)) =
     (if forms C (to_str (formKey opts))
      then (case fst (processCaptchaAnswer E C req (flashes w)) of
              Inl e \<Rightarrow> snd (processCaptchaAnswer E C req (flashes w))
            | Inr b \<Rightarrow>
                flashes (snd (parse_fields E req opts (schema_copy C opts w) (Some b)
                                (snd (processCaptchaAnswer E C req (flashes w))) [])))
      else flashes (snd (parse_fields E req opts (schema_copy C opts w) None (flashes w) [])))"
  unfolding parseSubmission_def schema_copy_def
  by (simp add: parse_fields_def assign_copy_def push_def Let_def nth_append
        split: prod.splits sum.splits)

subsection \<open>One field, and the loop\<close>

lemma transform_frame:
  "transform E opts req f v fv = Inr fv' \<Longrightarrow> k \<notin> written_keys f \<Longrightarrow> fv' k = fv k"
  by (auto simp: transform_def written_keys_def Let_def split: if_splits sum.splits)

lemma processField_frame:
  "processField E opts req f ps = Inr ps' \<Longrightarrow> k \<notin> written_keys f
     \<Longrightarrow> formValues ps' k = formValues ps k"
  by (auto simp: processField_def Let_def split: if_splits option.splits sum.splits
           dest: transform_frame)

lemma processField_skip:
  "skipValue f \<or> exempt opts f \<Longrightarrow>
     \<exists>ps'. processField E opts req f ps = Inr ps' \<and> formValues ps' = formValues ps"
  by (auto simp: processField_def exempt_def Let_def split: option.splits)

lemma processField_missing:
  "required f \<Longrightarrow> \<not> exempt opts f \<Longrightarrow> falsy (map_of (body req) (name f)) \<Longrightarrow>
     \<exists>ps'. processField E opts req f ps = Inr ps' \<and> \<not> hasRequiredFields ps'
            \<and> formValues ps' = formValues ps"
  by (auto simp: processField_def exempt_def Let_def split: option.splits)

lemma processField_hasRequired_mono:
  "processField E opts req f ps = Inr ps' \<Longrightarrow> \<not> hasRequiredFields ps
     \<Longrightarrow> \<not> hasRequiredFields ps'"
  by (auto simp: processField_def Let_def split: if_splits option.splits sum.splits)

lemma processFields_hasRequired_mono:
  "fst (processFields E opts req fs ps) = Inr ps' \<Longrightarrow> \<not> hasRequiredFields ps
     \<Longrightarrow> \<not> hasRequiredFields ps'"
proof (induction fs arbitrary: ps)
  case Nil
  then show ?case by simp
next
  case (Cons f fs)
  then show ?case
    by (auto split: sum.splits dest: processField_hasRequired_mono)
qed

lemma processFields_missing:
  "fst (processFields E opts req fs ps) = Inr ps' \<Longrightarrow> f \<in> set fs \<Longrightarrow> required f
     \<Longrightarrow> \<not> exempt opts f \<Longrightarrow> falsy (map_of (body req) (name f))
     \<Longrightarrow> \<not> hasRequiredFields ps'"
proof (induction fs arbitrary: ps)
  case Nil
  then show ?case by simp
next
  case (Cons g fs)
  show ?case
  proof (cases "processField E opts req g ps")
    case (Inl e)
    with Cons.prems(1) show ?thesis by simp
  next
    case (Inr ps1)
    with Cons.prems(1) have run: "fst (processFields E opts req fs ps1) = Inr ps'" by simp
    show ?thesis
    proof (cases "f = g")
      case True
      with Cons.prems processField_missing [of g opts req E ps] Inr
      have "\<not> hasRequiredFields ps1" by auto
      with run show ?thesis by (rule processFields_hasRequired_mono)
    next
      case False
      with Cons.prems have "f \<in> set fs" by simp
      with run Cons.prems show ?thesis by (intro Cons.IH) auto
    qed
  qed
qed

lemma processFields_unwritten:
  "fst (processFields E opts req fs ps) = Inr ps'
     \<Longrightarrow> \<forall>g \<in> set fs. k \<in> written_keys g \<longrightarrow> skipValue g \<or> exempt opts g
     \<Longrightarrow> formValues ps' k = formValues ps k"
proof (induction fs arbitrary: ps)
  case Nil
  then show ?case by simp
next
  case (Cons g fs)
  show ?case
  proof (cases "processField E opts req g ps")
    case (Inl e)
    with Cons.prems(1) show ?thesis by simp
  next
    case (Inr ps1)
    with Cons.prems(1) have run: "fst (processFields E opts req fs ps1) = Inr ps'" by simp
    have step: "formValues ps1 k = formValues ps k"
    proof (cases "k \<in> written_keys g")
      case True
      with Cons.prems(2) have "skipValue g \<or> exempt opts g" by simp
      from processField_skip [OF this, of E req ps] Inr show ?thesis by auto
    next
      case False
      with Inr show ?thesis by (rule processField_frame)
    qed
    from run Cons.prems(2) have "formValues ps' k = formValues ps1 k"
      by (intro Cons.IH) auto
    with step show ?thesis by simp
  qed
qed

lemma processField_no_write:
  assumes "processField E opts req g ps = Inr ps'" and "\<not> may_write opts g k"
  shows "formValues ps' k = formValues ps k"
proof (cases "skipValue g \<or> exempt opts g")
  case True
  from processField_skip [OF this, of E req ps] assms(1) show ?thesis by auto
next
  case False
  with assms(2) have "k \<notin> written_keys g" by (simp add: may_write_def)
  with assms(1) show ?thesis by (rule processField_frame)
qed

lemma processFields_last_writer:
  assumes "fst (processFields E opts req fs ps) = Inr ps'"
    and "\<forall>g \<in> set fs. g = f \<or> \<not> may_write opts g k"
    and "\<And>p p'. processField E opts req f p = Inr p' \<Longrightarrow> formValues p' k = Some val"
    and "f \<in> set fs \<or> formValues ps k = Some val"
  shows "formValues ps' k = Some val"
  using assms(1,2,4)
proof (induction fs arbitrary: ps)
  case Nil
  then show ?case by simp
next
  case (Cons g fs)
  show ?case
  proof (cases "processField E opts req g ps")
    case (Inl e)
    with Cons.prems(1) show ?thesis by simp
  next
    case (Inr ps1)
    with Cons.prems(1) have run: "fst (processFields E opts req fs ps1) = Inr ps'" by simp
    have "f \<in> set fs \<or> formValues ps1 k = Some val"
    proof (cases "g = f")
      case True
      with Inr assms(3) show ?thesis by simp
    next
      case False
      with Cons.prems(2) have "\<not> may_write opts g k" by simp
      with Inr have "formValues ps1 k = formValues ps k" by (rule processField_no_write)
      with False Cons.prems(3) show ?thesis by auto
    qed
    with run Cons.prems(2) show ?thesis by (intro Cons.IH) auto
  qed
qed

text \<open>The flag and the flash queue after the loop.\<close>

lemma processField_missing_iff:
  "processField E opts req f ps = Inr ps' \<Longrightarrow>
     hasRequiredFields ps' = (hasRequiredFields ps \<and> \<not> missing opts req f) \<and>
     flash ps' = flash ps @
       (if missing opts req f then [(''pageErrors'', translate E (''need '' @ name f))] else [])"
  by (auto simp: processField_def missing_def exempt_def Let_def
           split: if_splits option.splits sum.splits)

lemma processFields_flags:
  "processFields E opts req fs ps = (Inr ps', fl) \<Longrightarrow>
     hasRequiredFields ps' = (hasRequiredFields ps \<and> (\<forall>f \<in> set fs. \<not> missing opts req f)) \<and>
     fl = flash ps' \<and>
     flash ps' = flash ps @
       map (\<lambda>f. (''pageErrors'', translate E (''need '' @ name f))) (filter (missing opts req) fs)"
proof (induction fs arbitrary: ps)
  case Nil
  then show ?case by auto
next
  case (Cons g fs)
  show ?case
  proof (cases "processField E opts req g ps")
    case (Inl e)
    with Cons.prems show ?thesis by simp
  next
    case (Inr ps1)
    with Cons.prems have run: "processFields E opts req fs ps1 = (Inr ps', fl)" by simp
    from Cons.IH [OF run] processField_missing_iff [OF Inr] show ?thesis by auto
  qed
qed

text \<open>What a returning call returns, in terms of the loop.\<close>

lemma parseSubmission_returns_loop:
  assumes "fst (parseSubmission E C req opts w) = Inr r"
  obtains fl ps where
    "processFields E opts req (schema_copy C opts w) (initial_state req fl) = (Inr ps, flash ps)"
    and "sub_formValues r = formValues ps"
    and "sub_hasRequiredFields r = hasRequiredFields ps"
    and "sub_hasUnknownFields r = (processedKeys ps \<noteq> [])"
    and "flashes (snd (parseSubmission E C req opts w)) =
           flash ps @ (if processedKeys ps \<noteq> []
                       then [(''pageErrors'', translate E ''unexpected form data'')] else [])"
    and "fl = (if forms C (to_str (formKey opts))
               then snd (processCaptchaAnswer E C req (flashes w)) else flashes w)"
proof -
  define fl where "fl = (if forms C (to_str (formKey opts))
               then snd (processCaptchaAnswer E C req (flashes w)) else flashes w)"
  define cap where "cap = (if forms C (to_str (formKey opts))
               then (case fst (processCaptchaAnswer E C req (flashes w)) of
                       Inl e \<Rightarrow> None | Inr b \<Rightarrow> Some b)
               else None)"
  from assms have res: "fst (parse_fields E req opts (schema_copy C opts w) cap fl []) = Inr r"
    unfolding parseSubmission_result fl_def cap_def by (auto split: if_splits sum.splits)
  from assms have fls: "flashes (snd (parseSubmission E C req opts w)) =
      flashes (snd (parse_fields E req opts (schema_copy C opts w) cap fl []))"
    unfolding parseSubmission_result parseSubmission_flashes fl_def cap_def
    by (auto split: if_splits sum.splits)
  obtain out fl' where run:
    "processFields E opts req (schema_copy C opts w) (initial_state req fl) = (out, fl')"
    by (cases "processFields E opts req (schema_copy C opts w) (initial_state req fl)")
  with res obtain ps where out: "out = Inr ps"
    by (cases out) (auto simp: parse_fields_def)
  from run out processFields_flags [of E opts req "schema_copy C opts w" "initial_state req fl" ps fl']
  have fl': "fl' = flash ps" by simp
  show ?thesis
  proof (rule that [of fl ps])
    from run out fl' show
      "processFields E opts req (schema_copy C opts w) (initial_state req fl) = (Inr ps, flash ps)"
      by simp
    from res run out show "sub_formValues r = formValues ps"
      by (auto simp: parse_fields_def Let_def)
    from res run out show "sub_hasRequiredFields r = hasRequiredFields ps"
      by (auto simp: parse_fields_def Let_def)
    from res run out show "sub_hasUnknownFields r = (processedKeys ps \<noteq> [])"
      by (auto simp: parse_fields_def Let_def)
    from fls run out fl' show "flashes (snd (parseSubmission E C req opts w)) =
           flash ps @ (if processedKeys ps \<noteq> []
                       then [(''pageErrors'', translate E ''unexpected form data'')] else [])"
      by (auto simp: parse_fields_def Let_def)
    show "fl = (if forms C (to_str (formKey opts))
               then snd (processCaptchaAnswer E C req (flashes w)) else flashes w)"
      by (simp add: fl_def)
  qed
qed

lemma parseSubmission_returns:
  assumes "fst (parseSubmission E C req opts w) = Inr r"
  obtains ps0 ps where "fst (processFields E opts req (schema_copy C opts w) ps0) = Inr ps"
    and "formValues ps0 = Map.empty" and "hasRequiredFields ps0"
    and "sub_formValues r = formValues ps"
    and "sub_hasRequiredFields r = hasRequiredFields ps"
proof -
  from assms obtain fl ps where
    "processFields E opts req (schema_copy C opts w) (initial_state req fl) = (Inr ps, flash ps)"
    and "sub_formValues r = formValues ps"
    and "sub_hasRequiredFields r = hasRequiredFields ps"
    by (rule parseSubmission_returns_loop)
  then show ?thesis
    by (intro that [of "initial_state req fl" ps]) (simp_all add: initial_state_def)
qed

text \<open>
  A call throws exactly when the CAPTCHA processing throws or the schema copy has a field
  at which the loop throws.
\<close>

lemma processField_throws_iff:
  "(\<exists>e. processField E opts req f ps = Inl e) \<longleftrightarrow> throws_at opts req f"
  by (auto simp: processField_def transform_def trimmed_def throws_at_def missing_def
        exempt_def is_string_def falsy_def Let_def
           split: option.splits sum.splits if_splits js_value.splits)

lemma processFields_throws_iff:
  "(\<exists>e. fst (processFields E opts req fs ps) = Inl e) \<longleftrightarrow> (\<exists>f \<in> set fs. throws_at opts req f)"
proof (induction fs arbitrary: ps)
  case Nil
  then show ?case by simp
next
  case (Cons g fs)
  show ?case
  proof (cases "processField E opts req g ps")
    case (Inl e)
    then have "throws_at opts req g"
      using processField_throws_iff [of E opts req g ps] by auto
    with Inl show ?thesis by auto
  next
    case (Inr ps1)
    then have "\<not> throws_at opts req g"
      using processField_throws_iff [of E opts req g ps] by auto
    with Inr Cons.IH [of ps1] show ?thesis by auto
  qed
qed

lemma parseSubmission_throws_iff:
  "(\<exists>e. fst (parseSubmission E C req opts w) = Inl e) \<longleftrightarrow>
     (forms C (to_str (formKey opts)) \<and>
        (\<exists>e. fst (processCaptchaAnswer E C req (flashes w)) = Inl e)) \<or>
     (\<exists>f \<in> set (schema_copy C opts w). throws_at opts req f)"
proof -
  have loop: "(\<exists>e. fst (parse_fields E req opts fs cap fl st) = Inl e) \<longleftrightarrow>
      (\<exists>f \<in> set fs. throws_at opts req f)" for fs cap fl st
    using processFields_throws_iff [of E opts req fs "initial_state req fl"]
    by (auto simp: parse_fields_def Let_def split: prod.splits sum.splits)
  show ?thesis
    unfolding parseSubmission_result
    by (cases "fst (processCaptchaAnswer E C req (flashes w))") (auto simp: loop)
qed

text \<open>The definitions to unfold when a call is evaluated on a concrete input.\<close>

lemmas forms_eval =
  parseSubmission_result parse_fields_def initial_state_def schema_copy_def array_at_def
  processField_def transform_def trimmed_def Let_def csrf_field_def captcha_id_field_def
  captcha_answer_field_def to_str_def to_key_def falsy_def field_key_def

subsection \<open>Calls on the concrete inputs\<close>

lemma captcha_parse_example:
  "fst (parseSubmission sample_env captcha_config captcha_request captcha_options empty_world)
   = Inr captcha_result"
  by (simp add: forms_eval processCaptchaAnswer_def sample_env_def array_get_def decimal.simps
        captcha_config_def captcha_request_def captcha_options_def empty_world_def
        captcha_result_def)

lemma review_parse_example:
  "fst (parseSubmission sample_env no_captcha_config review_request plain_options review_world)
   = Inr review_result"
  by (simp add: forms_eval no_captcha_config_def review_field_def bio_field_def
        review_request_def plain_options_def review_world_def sample_env_def review_result_def)

lemma no_token_parse_example:
  "fst (parseSubmission sample_env no_captcha_config empty_request no_schema_options empty_world)
   = Inr no_token_result"
  by (simp add: forms_eval no_captcha_config_def empty_request_def
        no_schema_options_def empty_world_def no_token_result_def)

lemma exempt_parse_example:
  "fst (parseSubmission sample_env no_captcha_config token_request exempt_options title_world)
   = Inr exempt_result"
  by (simp add: forms_eval no_captcha_config_def title_field_def token_request_def
        exempt_options_def title_world_def exempt_result_def)

lemma exempt_present_parse_example:
  "fst (parseSubmission sample_env no_captcha_config title_request exempt_options title_world)
   = Inr exempt_result"
  by (simp add: forms_eval no_captcha_config_def title_field_def title_request_def
        exempt_options_def title_world_def exempt_result_def)

subsection \<open>The claims\<close>

text \<open>
  When \<^verbatim>\<open>processCaptchaAnswer\<close> returns true: the answer is a non-empty string, the captcha
  id names an element of the configured captchas, and the trimmed answer and the
  translation of that captcha's \<^verbatim>\<open>answerKey\<close> have the same upper case.
\<close>

lemma processCaptchaAnswer_accepts_iff:
  "fst (processCaptchaAnswer E C req fl) = Inr True \<longleftrightarrow>
     (\<exists>a c. map_of (body req) ''captcha-answer'' = Some (Str a) \<and> a \<noteq> [] \<and>
            array_get (array_inherits E) (captchas C) (to_key (map_of (body req) ''captcha-id''))
              = Element c \<and>
            toUpperCase E (trim E a) = toUpperCase E (translate E (answerKey c)))"
  by (auto simp: processCaptchaAnswer_def trimmed_def falsy_def Let_def
           split: option.splits property.splits js_value.splits sum.splits if_splits)

text \<open>
  C6. With one configured captcha, two submissions for which \<^verbatim>\<open>processCaptchaAnswer\<close> does
  not return false but throws, for every library instance. In the first the captcha id
  is \<^verbatim>\<open>length\<close>, which is the id of no captcha: \<^verbatim>\<open>captchas['length']\<close> is the number 1, it
  passes the test of line 172, and line 177 throws; so does \<^verbatim>\<open>parseSubmission\<close> for the
  form with the CAPTCHA enabled. In the second the answer is an array, not a string, and
  \<^verbatim>\<open>.trim()\<close> throws in line 177.
\<close>

theorem captcha_id_length_throws:
  "fst (processCaptchaAnswer E captcha_config length_request fl)
   = Inl (TypeError ''Cannot read property toUpperCase of undefined'') \<and>
   fst (parseSubmission E captcha_config length_request captcha_options w)
   = Inl (TypeError ''Cannot read property toUpperCase of undefined'') \<and>
   fst (processCaptchaAnswer E captcha_config array_answer_request fl)
   = Inl (TypeError ''trim is not a function'')"
proof -
  have "array_get (array_inherits E) (captchas captcha_config) ''length'' = NonElement True"
    by (simp add: array_get_def captcha_config_def decimal.simps)
  then have one: "fst (processCaptchaAnswer E captcha_config length_request fl)
      = Inl (TypeError ''Cannot read property toUpperCase of undefined'')" for fl
    by (simp add: processCaptchaAnswer_def length_request_def to_key_def falsy_def trimmed_def)
  have "array_get (array_inherits E) (captchas captcha_config) ''0''
      = Element \<lparr>questionKey = ''captcha question 1'', answerKey = ''Paris''\<rparr>"
    by (simp add: array_get_def captcha_config_def decimal.simps)
  then have two: "fst (processCaptchaAnswer E captcha_config array_answer_request fl)
      = Inl (TypeError ''trim is not a function'')"
    by (simp add: processCaptchaAnswer_def array_answer_request_def to_key_def falsy_def
          trimmed_def)
  have "forms captcha_config (to_str (formKey captcha_options))"
    by (simp add: captcha_config_def captcha_options_def to_str_def)
  with one two show ?thesis
    by (simp add: parseSubmission_result)
qed

text \<open>
  C10. When \<^verbatim>\<open>parseSubmission\<close> returns, \<^verbatim>\<open>hasCorrectCaptcha\<close> is \<^verbatim>\<open>null\<close> exactly when the
  CAPTCHA is not enabled for the form key; when it is enabled, \<^verbatim>\<open>hasCorrectCaptcha\<close> is
  the boolean that \<^verbatim>\<open>processCaptchaAnswer\<close> returns.
\<close>

theorem hasCorrectCaptcha_null_iff:
  assumes "fst (parseSubmission E C req opts w) = Inr r"
  shows "(sub_hasCorrectCaptcha r = None \<longleftrightarrow> \<not> forms C (to_str (formKey opts))) \<and>
         (forms C (to_str (formKey opts)) \<longrightarrow>
            (\<exists>b. fst (processCaptchaAnswer E C req (flashes w)) = Inr b \<and>
                 sub_hasCorrectCaptcha r = Some b))"
  using assms unfolding parseSubmission_result
  by (auto simp: parse_fields_def Let_def split: if_splits sum.splits prod.splits)

theorem hasCorrectCaptcha_null_iff_witness:
  "fst (parseSubmission sample_env captcha_config captcha_request captcha_options empty_world)
   = Inr captcha_result \<and>
   forms captcha_config (to_str (formKey captcha_options)) \<and>
   fst (processCaptchaAnswer sample_env captcha_config captcha_request (flashes empty_world))
   = Inr True \<and>
   sub_hasCorrectCaptcha captcha_result = Some True \<and>
   fst (parseSubmission sample_env no_captcha_config empty_request no_schema_options empty_world)
   = Inr no_token_result \<and>
   \<not> forms no_captcha_config (to_str (formKey no_schema_options)) \<and>
   sub_hasCorrectCaptcha no_token_result = None"
proof -
  have enabled: "forms captcha_config (to_str (formKey captcha_options))"
    by (simp add: captcha_config_def captcha_options_def to_str_def)
  have disabled: "\<not> forms no_captcha_config (to_str (formKey no_schema_options))"
    by (simp add: no_captcha_config_def)
  have cap: "sub_hasCorrectCaptcha captcha_result = Some True"
    by (simp add: captcha_result_def)
  from hasCorrectCaptcha_null_iff [OF captcha_parse_example] enabled cap
  have one: "fst (processCaptchaAnswer sample_env captcha_config captcha_request
                    (flashes empty_world)) = Inr True"
    by auto
  from hasCorrectCaptcha_null_iff [OF no_token_parse_example] disabled
  have two: "sub_hasCorrectCaptcha no_token_result = None"
    by simp
  from enabled disabled cap one two captcha_parse_example no_token_parse_example
  show ?thesis by simp
qed

text \<open>
  C8. After a call of \<^verbatim>\<open>parseSubmission\<close>, whether it returns or throws, every array that
  was in the store before the call is unchanged, the caller's form definition among them.
  The call adds one array to the store, the copy, which holds the elements of the
  caller's array followed by the implicit \<^verbatim>\<open>_csrf\<close> field and, when the CAPTCHA is
  enabled, the \<^verbatim>\<open>captcha-id\<close> and \<^verbatim>\<open>captcha-answer\<close> fields.
\<close>

theorem parseSubmission_keeps_arrays:
  "take (length (arrays w)) (arrays (snd (parseSubmission E C req opts w))) = arrays w \<and>
   arrays (snd (parseSubmission E C req opts w)) ! length (arrays w) =
     array_at (arrays w) (formDef opts) @ csrf_field #
       (if forms C (to_str (formKey opts)) then [captcha_id_field, captcha_answer_field] else []) \<and>
   length (arrays (snd (parseSubmission E C req opts w))) = Suc (length (arrays w))"
  by (simp add: parseSubmission_arrays schema_copy_def)

text \<open>
  C2. \<^verbatim>\<open>parseSubmission\<close> throws on a form definition with one optional \<^verbatim>\<open>text\<close> field
  when the body holds the CSRF token and no value for that field: \<^verbatim>\<open>.trim()\<close> is called
  on \<^verbatim>\<open>undefined\<close>. This holds for every library instance and every configuration.
\<close>

theorem absent_optional_text_throws:
  "fst (parseSubmission E C
          \<lparr>body = [(''_csrf'', Str ''token'')], req_locale = ''en''\<rparr>
          \<lparr>formDef = Some 0, formKey = None, language = Some ''en'', skipRequiredCheck = Some []\<rparr>
          \<lparr>arrays = [[\<lparr>name = ''title'', key = None, ftype = Some ''text'', required = False,
                       skipValue = False, flat = False, htmlKey = None\<rparr>]],
           flashes = []\<rparr>)
   = Inl (TypeError ''Cannot read property trim of undefined'')"
proof -
  have "fst (processCaptchaAnswer E C \<lparr>body = [(''_csrf'', Str ''token'')], req_locale = ''en''\<rparr> [])
      = Inr False"
    by (simp add: processCaptchaAnswer_def falsy_def)
  then show ?thesis
    by (simp add: parseSubmission_result parse_fields_def initial_state_def schema_copy_def
          array_at_def processField_def transform_def trimmed_def falsy_def Let_def)
qed

text \<open>
  What holds of such a field when the call returns: processing the field assigns
  \<^verbatim>\<open>false\<close>, and the returned \<^verbatim>\<open>formValues[key]\<close> is \<^verbatim>\<open>false\<close> unless another field assigns
  the key.
\<close>

lemma absent_boolean_false_when_returning:
  assumes "ftype f = Some ''boolean''" and "\<not> required f" and "\<not> skipValue f"
    and "\<not> exempt opts f" and "map_of (body req) (name f) = None"
  shows "(skipRequiredCheck opts \<noteq> None \<longrightarrow>
            (\<forall>ps. processField E opts req f ps =
               Inr (ps\<lparr>processedKeys := remove1 (name f) (processedKeys ps),
                       formValues := (formValues ps)(field_key f \<mapsto> BooleanV False)\<rparr>))) \<and>
         (\<forall>r. fst (parseSubmission E C req opts w) = Inr r \<longrightarrow>
              f \<in> set (array_at (arrays w) (formDef opts)) \<longrightarrow>
              (\<forall>g \<in> set (schema_copy C opts w). g = f \<or> \<not> may_write opts g (field_key f)) \<longrightarrow>
              sub_formValues r (field_key f) = Some (BooleanV False))"
proof (intro conjI allI impI)
  fix ps
  assume "skipRequiredCheck opts \<noteq> None"
  with assms show "processField E opts req f ps =
      Inr (ps\<lparr>processedKeys := remove1 (name f) (processedKeys ps),
              formValues := (formValues ps)(field_key f \<mapsto> BooleanV False)\<rparr>)"
    by (auto simp: processField_def transform_def exempt_def falsy_def Let_def)
next
  fix r
  assume ret: "fst (parseSubmission E C req opts w) = Inr r"
    and mem: "f \<in> set (array_at (arrays w) (formDef opts))"
    and others: "\<forall>g \<in> set (schema_copy C opts w). g = f \<or> \<not> may_write opts g (field_key f)"
  have step: "formValues p' (field_key f) = Some (BooleanV False)"
    if "processField E opts req f p = Inr p'" for p p' :: "'a pstate"
    using that assms
    by (auto simp: processField_def transform_def exempt_def falsy_def Let_def
             split: option.splits if_splits)
  from ret obtain ps0 ps where
    run: "fst (processFields E opts req (schema_copy C opts w) ps0) = Inr ps"
    and res: "sub_formValues r = formValues ps"
    by (rule parseSubmission_returns)
  from mem have "f \<in> set (schema_copy C opts w)"
    by (simp add: schema_copy_def)
  then have "f \<in> set (schema_copy C opts w) \<or> formValues ps0 (field_key f) = Some (BooleanV False)"
    by simp
  with run others step have "formValues ps (field_key f) = Some (BooleanV False)"
    by (rule processFields_last_writer)
  with res show "sub_formValues r (field_key f) = Some (BooleanV False)" by simp
qed

text \<open>
  C9. Two calls with an optional \<^verbatim>\<open>boolean\<close> field \<^verbatim>\<open>subscribe\<close> that is not marked
  \<^verbatim>\<open>skipValue\<close>, not exempted and absent from the body, in which \<^verbatim>\<open>false\<close> is never
  written under its key because the call throws: in the first the schema has an
  optional \<^verbatim>\<open>text\<close> field before it, also absent, and line 99 throws; in the second
  \<^verbatim>\<open>options.skipRequiredCheck\<close> is \<^verbatim>\<open>undefined\<close> and line 82 throws at the field itself.
  This holds for every library instance and every configuration.
\<close>

theorem absent_boolean_not_written:
  "fst (parseSubmission E C token_request plain_options title_subscribe_world)
   = Inl (TypeError ''Cannot read property trim of undefined'') \<and>
   fst (parseSubmission E C token_request unguarded_options subscribe_world)
   = Inl (TypeError ''Cannot read property indexOf of undefined'')"
proof -
  have "fst (processCaptchaAnswer E C token_request []) = Inr False"
    by (simp add: processCaptchaAnswer_def falsy_def token_request_def)
  then show ?thesis
    by (simp add: parseSubmission_result parse_fields_def initial_state_def schema_copy_def
          array_at_def processField_def transform_def trimmed_def falsy_def Let_def
          token_request_def plain_options_def unguarded_options_def title_subscribe_world_def
          subscribe_world_def title_optional_field_def subscribe_field_def)
qed

text \<open>
  C7, as stated. A \<^verbatim>\<open>markdown\<close> field with \<^verbatim>\<open>flat\<close> unset whose value is present in the
  body, but which is marked \<^verbatim>\<open>skipValue\<close>: the call returns and \<^verbatim>\<open>formValues\<close> has no
  entry under the field's key.
\<close>

theorem markdown_skipValue_counterexample:
  "fst (parseSubmission sample_env no_captcha_config review_request plain_options
          skipped_review_world)
   = Inr skipped_review_result \<and>
   map_of (body review_request) ''review-text'' = Some (Str '' a <b> & c '') \<and>
   sub_formValues skipped_review_result ''review'' = None"
  by (simp add: forms_eval no_captcha_config_def review_field_def bio_field_def
        review_request_def plain_options_def skipped_review_world_def sample_env_def
        skipped_review_result_def)

text \<open>
  C7, amended. A \<^verbatim>\<open>markdown\<close> field of the caller's schema that is neither marked
  \<^verbatim>\<open>skipValue\<close> nor exempted, whose value \<open>s\<close> is in the body (and is not empty when the
  field is required), in a call that returns and in which no other field assigns the
  same keys. With \<^verbatim>\<open>flat\<close> unset, \<^verbatim>\<open>formValues[key]\<close> is the object whose \<^verbatim>\<open>text\<close>
  holds, under the active language, the escaped trimmed input, and whose \<^verbatim>\<open>html\<close> holds,
  under the active language, the rendered trimmed input. With \<^verbatim>\<open>flat\<close> set,
  \<^verbatim>\<open>formValues[htmlKey]\<close> holds the rendered form under the active language, and
  \<^verbatim>\<open>formValues[key]\<close> the escaped text under the active language, provided the two keys
  differ.
\<close>

theorem markdown_field_values:
  assumes "ftype f = Some ''markdown''" and "\<not> skipValue f" and "\<not> exempt opts f"
    and "map_of (body req) (name f) = Some (Str s)" and "required f \<longrightarrow> s \<noteq> []"
    and "f \<in> set (array_at (arrays w) (formDef opts))"
    and "\<forall>g \<in> set (schema_copy C opts w).
           g = f \<or> (\<not> may_write opts g (field_key f) \<and>
                     (flat f \<longrightarrow> \<not> may_write opts g (to_str (htmlKey f))))"
    and "fst (parseSubmission E C req opts w) = Inr r"
  shows "(\<not> flat f \<longrightarrow>
            sub_formValues r (field_key f) =
              Some (MarkdownV [(to_str (language opts), escapeHTML E (trim E s))]
                              [(to_str (language opts), md_render E (trim E s) (req_locale req))])) \<and>
         (flat f \<longrightarrow>
            sub_formValues r (to_str (htmlKey f)) =
              Some (LangV [(to_str (language opts), md_render E (trim E s) (req_locale req))]) \<and>
            (field_key f \<noteq> to_str (htmlKey f) \<longrightarrow>
               sub_formValues r (field_key f) =
                 Some (LangV [(to_str (language opts), escapeHTML E (trim E s))])))"
proof -
  from assms(8) obtain ps0 ps where
    run: "fst (processFields E opts req (schema_copy C opts w) ps0) = Inr ps"
    and res: "sub_formValues r = formValues ps"
    by (rule parseSubmission_returns)
  from assms(6) have mem: "f \<in> set (schema_copy C opts w)"
    by (simp add: schema_copy_def)
  have last: "formValues ps k = Some val"
    if "\<forall>g \<in> set (schema_copy C opts w). g = f \<or> \<not> may_write opts g k"
      and "\<And>p p'. processField E opts req f p = Inr p' \<Longrightarrow> formValues p' k = Some val"
    for k val
    using run that(1) that(2) mem by (rule processFields_last_writer [OF _ _ _ disjI1])
  show ?thesis
  proof (intro conjI impI)
    assume nf: "\<not> flat f"
    have "formValues ps (field_key f) =
        Some (MarkdownV [(to_str (language opts), escapeHTML E (trim E s))]
                        [(to_str (language opts), md_render E (trim E s) (req_locale req))])"
    proof (rule last)
      show "\<forall>g \<in> set (schema_copy C opts w). g = f \<or> \<not> may_write opts g (field_key f)"
        using assms(7) by blast
    next
      fix p p' :: "'a pstate"
      assume "processField E opts req f p = Inr p'"
      with assms(1-5) nf show "formValues p' (field_key f) =
        Some (MarkdownV [(to_str (language opts), escapeHTML E (trim E s))]
                        [(to_str (language opts), md_render E (trim E s) (req_locale req))])"
        by (auto simp: processField_def transform_def trimmed_def exempt_def falsy_def Let_def
                 split: option.splits if_splits)
    qed
    with res show "sub_formValues r (field_key f) =
        Some (MarkdownV [(to_str (language opts), escapeHTML E (trim E s))]
                        [(to_str (language opts), md_render E (trim E s) (req_locale req))])"
      by simp
  next
    assume fl: "flat f"
    have "formValues ps (to_str (htmlKey f)) =
        Some (LangV [(to_str (language opts), md_render E (trim E s) (req_locale req))])"
    proof (rule last)
      show "\<forall>g \<in> set (schema_copy C opts w). g = f \<or> \<not> may_write opts g (to_str (htmlKey f))"
        using assms(7) fl by blast
    next
      fix p p' :: "'a pstate"
      assume "processField E opts req f p = Inr p'"
      with assms(1-5) fl show "formValues p' (to_str (htmlKey f)) =
        Some (LangV [(to_str (language opts), md_render E (trim E s) (req_locale req))])"
        by (auto simp: processField_def transform_def trimmed_def exempt_def falsy_def Let_def
                 split: option.splits if_splits)
    qed
    with res show "sub_formValues r (to_str (htmlKey f)) =
        Some (LangV [(to_str (language opts), md_render E (trim E s) (req_locale req))])"
      by simp
  next
    assume fl: "flat f" and ne: "field_key f \<noteq> to_str (htmlKey f)"
    have "formValues ps (field_key f) =
        Some (LangV [(to_str (language opts), escapeHTML E (trim E s))])"
    proof (rule last)
      show "\<forall>g \<in> set (schema_copy C opts w). g = f \<or> \<not> may_write opts g (field_key f)"
        using assms(7) by blast
    next
      fix p p' :: "'a pstate"
      assume "processField E opts req f p = Inr p'"
      with assms(1-5) fl ne show "formValues p' (field_key f) =
        Some (LangV [(to_str (language opts), escapeHTML E (trim E s))])"
        by (auto simp: processField_def transform_def trimmed_def exempt_def falsy_def Let_def
                 split: option.splits if_splits)
    qed
    with res show "sub_formValues r (field_key f) =
        Some (LangV [(to_str (language opts), escapeHTML E (trim E s))])"
      by simp
  qed
qed

theorem markdown_field_values_witness:
  "fst (parseSubmission sample_env no_captcha_config review_request plain_options review_world)
   = Inr review_result \<and>
   sub_formValues review_result ''review''
   = Some (MarkdownV [(''en'', escapeHTML sample_env (trim sample_env '' a <b> & c ''))]
                     [(''en'', md_render sample_env (trim sample_env '' a <b> & c '') ''de'')]) \<and>
   sub_formValues review_result ''bio''
   = Some (LangV [(''en'', escapeHTML sample_env (trim sample_env ''me ''))]) \<and>
   sub_formValues review_result ''bioHTML''
   = Some (LangV [(''en'', md_render sample_env (trim sample_env ''me '') ''de'')])"
proof -
  have others:
    "\<forall>g \<in> set (schema_copy no_captcha_config plain_options review_world).
       g = f \<or> (\<not> may_write plain_options g (field_key f) \<and>
                 (flat f \<longrightarrow> \<not> may_write plain_options g (to_str (htmlKey f))))"
    if "f = review_field \<or> f = bio_field" for f
    using that
    by (auto simp: schema_copy_def array_at_def review_world_def plain_options_def
          no_captcha_config_def may_write_def written_keys_def csrf_field_def review_field_def
          bio_field_def field_key_def to_str_def)
  have mem: "f \<in> set (array_at (arrays review_world) (formDef plain_options))"
    if "f = review_field \<or> f = bio_field" for f
    using that by (auto simp: array_at_def review_world_def plain_options_def)
  have ne: "\<not> exempt plain_options f" for f
    by (simp add: exempt_def plain_options_def)
  have lang: "to_str (language plain_options) = ''en''" "req_locale review_request = ''de''"
    by (simp_all add: to_str_def plain_options_def review_request_def)
  have "ftype review_field = Some ''markdown''" "\<not> skipValue review_field"
    "map_of (body review_request) (name review_field) = Some (Str '' a <b> & c '')"
    "required review_field \<longrightarrow> '' a <b> & c '' \<noteq> []"
    by (simp_all add: review_field_def review_request_def)
  from markdown_field_values [OF this(1,2) ne this(3,4) mem others review_parse_example]
  have one: "sub_formValues review_result ''review''
   = Some (MarkdownV [(''en'', escapeHTML sample_env (trim sample_env '' a <b> & c ''))]
                     [(''en'', md_render sample_env (trim sample_env '' a <b> & c '') ''de'')])"
    by (simp add: lang) (simp add: review_field_def field_key_def)
  have "ftype bio_field = Some ''markdown''" "\<not> skipValue bio_field"
    "map_of (body review_request) (name bio_field) = Some (Str ''me '')"
    "required bio_field \<longrightarrow> ''me '' \<noteq> []"
    by (simp_all add: bio_field_def review_request_def)
  from markdown_field_values [OF this(1,2) ne this(3,4) mem others review_parse_example]
  have two: "sub_formValues review_result ''bio''
   = Some (LangV [(''en'', escapeHTML sample_env (trim sample_env ''me ''))]) \<and>
   sub_formValues review_result ''bioHTML''
   = Some (LangV [(''en'', md_render sample_env (trim sample_env ''me '') ''de'')])"
    by (simp add: lang) (simp add: bio_field_def field_key_def to_str_def)
  from review_parse_example one two show ?thesis by simp
qed

text \<open>
  C4, as stated. A required field whose name is listed in \<^verbatim>\<open>options.skipRequiredCheck\<close> and
  which is absent from the body: the call returns with \<^verbatim>\<open>hasRequiredFields\<close> true, so the
  absence was not recorded.
\<close>

theorem exempted_field_counterexample:
  "fst (parseSubmission sample_env no_captcha_config token_request exempt_options title_world)
   = Inr exempt_result \<and>
   required title_field \<and> name title_field \<in> set [''title''] \<and>
   skipRequiredCheck exempt_options = Some [''title''] \<and>
   map_of (body token_request) (name title_field) = None \<and>
   sub_hasRequiredFields exempt_result"
  by (simp add: forms_eval no_captcha_config_def title_field_def token_request_def
        exempt_options_def title_world_def exempt_result_def)

text \<open>
  C4, amended. For a field marked \<^verbatim>\<open>skipValue\<close> or exempted, processing the field never
  assigns to \<^verbatim>\<open>formValues\<close>: it removes the name from the processed keys and, only when
  the field is missing (required, not exempted, absent or empty in the body), queues the
  message and sets \<^verbatim>\<open>hasRequiredFields\<close> to false. When the call returns, \<^verbatim>\<open>formValues\<close>
  has no entry under the field's key unless another field of the schema assigns that key;
  \<^verbatim>\<open>hasRequiredFields\<close> is true exactly when no field of the schema copy is missing, so an
  exempted field never makes it false; and the flash queue of the request holds, after
  the messages queued before the loop, one message for each missing field, in order, and
  then the message for unknown fields if there are any.
\<close>

theorem skipped_fields_not_written:
  assumes "skipValue f \<or> exempt opts f"
  shows "(\<forall>ps. processField E opts req f ps =
            (if missing opts req f
             then Inr (ps\<lparr>processedKeys := remove1 (name f) (processedKeys ps),
                          flash := flash ps @ [(''pageErrors'', translate E (''need '' @ name f))],
                          hasRequiredFields := False\<rparr>)
             else Inr (ps\<lparr>processedKeys := remove1 (name f) (processedKeys ps)\<rparr>))) \<and>
         (\<forall>r. fst (parseSubmission E C req opts w) = Inr r \<longrightarrow>
              ((\<forall>g \<in> set (schema_copy C opts w). \<not> may_write opts g (field_key f)) \<longrightarrow>
                 sub_formValues r (field_key f) = None) \<and>
              sub_hasRequiredFields r =
                (\<forall>g \<in> set (schema_copy C opts w). \<not> missing opts req g) \<and>
              flashes (snd (parseSubmission E C req opts w)) =
                (if forms C (to_str (formKey opts))
                 then snd (processCaptchaAnswer E C req (flashes w)) else flashes w) @
                map (\<lambda>g. (''pageErrors'', translate E (''need '' @ name g)))
                  (filter (missing opts req) (schema_copy C opts w)) @
                (if sub_hasUnknownFields r
                 then [(''pageErrors'', translate E ''unexpected form data'')] else []))"
proof (intro conjI allI impI)
  fix ps
  from assms show "processField E opts req f ps =
            (if missing opts req f
             then Inr (ps\<lparr>processedKeys := remove1 (name f) (processedKeys ps),
                          flash := flash ps @ [(''pageErrors'', translate E (''need '' @ name f))],
                          hasRequiredFields := False\<rparr>)
             else Inr (ps\<lparr>processedKeys := remove1 (name f) (processedKeys ps)\<rparr>))"
    by (auto simp: processField_def missing_def exempt_def Let_def split: option.splits)
next
  fix r
  assume ret: "fst (parseSubmission E C req opts w) = Inr r"
    and unwritten: "\<forall>g \<in> set (schema_copy C opts w). \<not> may_write opts g (field_key f)"
  from ret obtain ps0 ps where
    run: "fst (processFields E opts req (schema_copy C opts w) ps0) = Inr ps"
    and init: "formValues ps0 = Map.empty"
    and res: "sub_formValues r = formValues ps"
    by (rule parseSubmission_returns)
  from unwritten have "\<forall>g \<in> set (schema_copy C opts w).
      field_key f \<in> written_keys g \<longrightarrow> skipValue g \<or> exempt opts g"
    by (auto simp: may_write_def)
  with run have "formValues ps (field_key f) = formValues ps0 (field_key f)"
    by (rule processFields_unwritten)
  with init res show "sub_formValues r (field_key f) = None" by simp
next
  fix r
  assume ret: "fst (parseSubmission E C req opts w) = Inr r"
  from ret obtain fl ps where
    run: "processFields E opts req (schema_copy C opts w) (initial_state req fl)
            = (Inr ps, flash ps)"
    and res: "sub_hasRequiredFields r = hasRequiredFields ps"
    by (rule parseSubmission_returns_loop)
  from processFields_flags [OF run] res
  show "sub_hasRequiredFields r = (\<forall>g \<in> set (schema_copy C opts w). \<not> missing opts req g)"
    by (simp add: initial_state_def)
next
  fix r
  assume ret: "fst (parseSubmission E C req opts w) = Inr r"
  from ret obtain fl ps where
    run: "processFields E opts req (schema_copy C opts w) (initial_state req fl)
            = (Inr ps, flash ps)"
    and unk: "sub_hasUnknownFields r = (processedKeys ps \<noteq> [])"
    and fls: "flashes (snd (parseSubmission E C req opts w)) =
           flash ps @ (if processedKeys ps \<noteq> []
                       then [(''pageErrors'', translate E ''unexpected form data'')] else [])"
    and fl: "fl = (if forms C (to_str (formKey opts))
               then snd (processCaptchaAnswer E C req (flashes w)) else flashes w)"
    by (rule parseSubmission_returns_loop)
  from processFields_flags [OF run]
  have "flash ps = fl @ map (\<lambda>g. (''pageErrors'', translate E (''need '' @ name g)))
                  (filter (missing opts req) (schema_copy C opts w))"
    by (simp add: initial_state_def)
  with fls unk fl show "flashes (snd (parseSubmission E C req opts w)) =
                (if forms C (to_str (formKey opts))
                 then snd (processCaptchaAnswer E C req (flashes w)) else flashes w) @
                map (\<lambda>g. (''pageErrors'', translate E (''need '' @ name g)))
                  (filter (missing opts req) (schema_copy C opts w)) @
                (if sub_hasUnknownFields r
                 then [(''pageErrors'', translate E ''unexpected form data'')] else [])"
    by simp
qed

theorem skipped_fields_not_written_witness:
  "fst (parseSubmission sample_env no_captcha_config token_request exempt_options title_world)
   = Inr exempt_result \<and>
   map_of (body token_request) ''_csrf'' = Some (Str ''token'') \<and>
   sub_formValues exempt_result ''_csrf'' = None \<and>
   sub_hasRequiredFields exempt_result \<and>
   flashes (snd (parseSubmission sample_env no_captcha_config token_request exempt_options
                   title_world)) = [] \<and>
   fst (parseSubmission sample_env no_captcha_config title_request exempt_options title_world)
   = Inr exempt_result \<and>
   map_of (body title_request) ''title'' = Some (Str ''Hello'') \<and>
   sub_formValues exempt_result ''title'' = None \<and>
   fst (parseSubmission sample_env no_captcha_config empty_request no_schema_options empty_world)
   = Inr no_token_result \<and>
   \<not> sub_hasRequiredFields no_token_result \<and>
   flashes (snd (parseSubmission sample_env no_captcha_config empty_request no_schema_options
                   empty_world)) = [(''pageErrors'', ''need _csrf'')]"
proof -
  have sk: "skipValue csrf_field \<or> exempt opts csrf_field" for opts
    by (simp add: csrf_field_def)
  have ex: "skipValue title_field \<or> exempt exempt_options title_field"
    by (simp add: exempt_def exempt_options_def title_field_def)
  have copy: "schema_copy no_captcha_config exempt_options title_world = [title_field, csrf_field]"
    "schema_copy no_captcha_config no_schema_options empty_world = [csrf_field]"
    by (simp_all add: schema_copy_def array_at_def exempt_options_def title_world_def
          no_captcha_config_def no_schema_options_def)
  have keys: "field_key csrf_field = ''_csrf''" "field_key title_field = ''title''"
    by (simp_all add: field_key_def csrf_field_def title_field_def)
  have unwritten: "\<not> may_write exempt_options g k" if "g = title_field \<or> g = csrf_field" for g k
    using that
    by (auto simp: may_write_def exempt_def exempt_options_def title_field_def csrf_field_def)
  have present: "\<not> missing exempt_options token_request title_field"
    "\<not> missing exempt_options token_request csrf_field"
    by (simp_all add: missing_def exempt_def exempt_options_def title_field_def csrf_field_def
          token_request_def falsy_def)
  have absent: "missing no_schema_options empty_request csrf_field"
    by (simp add: missing_def exempt_def no_schema_options_def csrf_field_def
          empty_request_def falsy_def)
  have off: "\<not> forms no_captcha_config k" for k
    by (simp add: no_captcha_config_def)
  have fl0: "flashes title_world = []" "flashes empty_world = []"
    by (simp_all add: title_world_def empty_world_def)
  have flags: "\<not> sub_hasUnknownFields exempt_result" "\<not> sub_hasUnknownFields no_token_result"
    by (simp_all add: exempt_result_def no_token_result_def)
  note one = skipped_fields_not_written [OF sk, of sample_env exempt_options token_request
      no_captcha_config title_world]
  from one exempt_parse_example
  have a: "sub_formValues exempt_result ''_csrf'' = None"
    "sub_hasRequiredFields exempt_result"
    "flashes (snd (parseSubmission sample_env no_captcha_config token_request exempt_options
                     title_world)) = []"
    by (simp_all add: copy keys unwritten present off flags fl0)
  note two' = skipped_fields_not_written [OF ex, of sample_env title_request
      no_captcha_config title_world]
  from two' exempt_present_parse_example
  have b: "sub_formValues exempt_result ''title'' = None"
    by (simp add: copy keys unwritten)
  note three = skipped_fields_not_written [OF sk, of sample_env no_schema_options empty_request
      no_captcha_config empty_world]
  from three no_token_parse_example
  have c: "\<not> sub_hasRequiredFields no_token_result"
    "flashes (snd (parseSubmission sample_env no_captcha_config empty_request no_schema_options
                     empty_world)) = [(''pageErrors'', ''need _csrf'')]"
    by (simp_all add: copy absent off flags fl0) (simp add: sample_env_def csrf_field_def)
  have "map_of (body token_request) ''_csrf'' = Some (Str ''token'')"
    "map_of (body title_request) ''title'' = Some (Str ''Hello'')"
    by (simp_all add: token_request_def title_request_def)
  with a b c exempt_parse_example exempt_present_parse_example no_token_parse_example
  show ?thesis by simp
qed

section \<open>Properties of routes/handlers/form-handler.js\<close>

subsection \<open>The loop over the checks, and the constructor\<close>

lemma run_checks_eq:
  "run_checks cs i ok acc w =
     (ok \<and> False \<notin> set (check_results cs w),
      acc @ map CheckCall [i ..< i + length cs],
      after_checks cs w)"
proof (induction cs arbitrary: i ok acc w)
  case Nil
  then show ?case by simp
next
  case (Cons c cs)
  obtain r w' where c: "c w = (r, w')" by (cases "c w")
  have "[i ..< i + length (c # cs)] = i # [Suc i ..< Suc i + length cs]"
    by (simp add: upt_rec)
  with c Cons.IH [of "Suc i" "if \<not> r then False else ok" "acc @ [CheckCall i]" w']
  show ?case by auto
qed

lemma FormHandler_action_names:
  "map fst (actions (FormHandler M opts)) = [''create'', ''edit'', ''delete'']"
  by (simp add: FormHandler_def)

lemma addPreFlightCheck_action_names:
  "map fst (actions (addPreFlightCheck c h)) = map fst (actions h)"
  by (simp add: addPreFlightCheck_def case_prod_beta comp_def)

lemma FormHandler_not_found_defaults:
  "documentNotFoundTemplate (FormHandler M opts) = ''404'' \<and>
   documentNotFoundTitleKey (FormHandler M opts) = ''page not found title''"
  by (simp add: FormHandler_def)

lemmas handler_eval =
  FormHandler_def addPreFlightCheck_def with_titleKeys_def sample_methods_def verb_handler_def
  object_prototype_functions_def
  edit_handler_def upload_handler_def delete_post_handler_def put_handler_def
  toString_handler_def

lemma edit_handler_action:
  "map_of (actions (edit_handler s d)) (action (edit_handler s d)) = Some (edit_spec s d)"
  by (simp add: handler_eval edit_spec_def)

lemma edit_handler_verb:
  "verb_handler (edit_handler s' d') (edit_spec s d) (http_method (edit_handler s' d'))
   = Some (\<lambda>d w. w @ [''edit_GET''])"
  by (simp add: handler_eval edit_spec_def)

text \<open>
  A function that the action object inherits passes the test of line 73: with the method
  \<^verbatim>\<open>toString\<close> the checks run and the inherited function is called as the handler.
\<close>

lemma inherited_function_is_called:
  "execute toString_handler [] =
     (Inr (), [CheckCall 0, VerbCall ''toString'' None], [''userIsSignedIn''])"
  by (simp add: execute_def handler_eval)

subsection \<open>The claims on execute\<close>

text \<open>
  C3. For a recognized action with a handler for the method, if at least one pre-flight
  check of the action returns false, \<^verbatim>\<open>execute\<close> returns after calling every pre-flight
  check of the action exactly once, in order, and nothing else: neither the loader nor
  the verb handler is called.
\<close>

theorem failed_check_runs_all_checks:
  assumes "map_of (actions h) (action h) = Some a"
    and "verb_handler h a (http_method h) = Some v"
    and "False \<in> set (check_results (preFlightChecks a) w)"
  shows "execute h w =
           (Inr (), map CheckCall [0 ..< length (preFlightChecks a)],
            after_checks (preFlightChecks a) w) \<and>
         LoadDataCall \<notin> set (fst (snd (execute h w))) \<and>
         (\<forall>m d. VerbCall m d \<notin> set (fst (snd (execute h w))))"
proof -
  from assms have ex: "execute h w =
      (Inr (), map CheckCall [0 ..< length (preFlightChecks a)],
       after_checks (preFlightChecks a) w)"
    by (simp add: execute_def run_checks_eq)
  then show ?thesis by auto
qed

theorem failed_check_runs_all_checks_witness:
  "execute (edit_handler False False) [] =
     (Inr (), [CheckCall 0, CheckCall 1], [''userIsSignedIn'', ''userIsTrusted'']) \<and>
   LoadDataCall \<notin> set (fst (snd (execute (edit_handler False False) []))) \<and>
   VerbCall ''GET'' (Some \<lparr>revDeleted = False\<rparr>)
     \<notin> set (fst (snd (execute (edit_handler False False) []))) \<and>
   VerbCall ''GET'' None \<notin> set (fst (snd (execute (edit_handler False False) [])))"
proof -
  have "False \<in> set (check_results (preFlightChecks (edit_spec False False)) [])"
    by (simp add: edit_spec_def)
  from failed_check_runs_all_checks [OF edit_handler_action edit_handler_verb this]
  show ?thesis by (simp add: upt_rec edit_spec_def)
qed

text \<open>
  C5. For a handler with the action table of the constructor (\<^verbatim>\<open>create\<close>, \<^verbatim>\<open>edit\<close>,
  \<^verbatim>\<open>delete\<close>): when the action is none of the three, and when the action is recognized but
  \<^verbatim>\<open>this.actions[action][method]\<close> is not a function (no handler is registered for the
  method, and the method is not the name of another function of the action object),
  \<^verbatim>\<open>execute\<close> throws an \<^verbatim>\<open>Error\<close> before it calls anything: no check, no loader, no
  rendering, and the state is unchanged.
\<close>

theorem execute_configuration_error:
  assumes "map fst (actions h) = [''create'', ''edit'', ''delete'']"
  shows "(action h \<notin> {''create'', ''edit'', ''delete''} \<longrightarrow>
            execute h w =
              (Inl (Error (''Did not recognize form action: '' @ to_str (form_type h))), [], w)) \<and>
         (\<forall>a. map_of (actions h) (action h) = Some a \<and> verb_handler h a (http_method h) = None \<longrightarrow>
            execute h w = (Inl (Error ''No defined handler for this method.''), [], w))"
proof (intro conjI impI allI)
  assume "action h \<notin> {''create'', ''edit'', ''delete''}"
  moreover have "fst ` set (actions h) = set (map fst (actions h))" by simp
  ultimately have "action h \<notin> fst ` set (actions h)"
    unfolding assms by simp
  then have "map_of (actions h) (action h) = None"
    by (simp add: map_of_eq_None_iff)
  then show "execute h w =
      (Inl (Error (''Did not recognize form action: '' @ to_str (form_type h))), [], w)"
    by (simp add: execute_def)
next
  fix a
  assume "map_of (actions h) (action h) = Some a \<and> verb_handler h a (http_method h) = None"
  then show "execute h w = (Inl (Error ''No defined handler for this method.''), [], w)"
    by (simp add: execute_def)
qed

theorem execute_configuration_error_witness:
  "execute upload_handler [] =
     (Inl (Error ''Did not recognize form action: undefined''), [], []) \<and>
   execute delete_post_handler [] =
     (Inl (Error ''No defined handler for this method.''), [], []) \<and>
   execute put_handler [] =
     (Inl (Error ''No defined handler for this method.''), [], [])"
proof -
  have "action upload_handler \<notin> {''create'', ''edit'', ''delete''}"
    by (simp add: handler_eval)
  with execute_configuration_error [OF FormHandler_action_names, of "sample_methods True False"
      "\<lparr>opt_action = Some ''upload'', opt_method = Some ''GET'', opt_id = None\<rparr>" "[]"]
  have one: "execute upload_handler [] =
     (Inl (Error ''Did not recognize form action: undefined''), [], [])"
    by (simp add: upload_handler_def) (simp add: FormHandler_def to_str_def)
  have "map_of (actions delete_post_handler) (action delete_post_handler) = Some delete_spec \<and>
    verb_handler delete_post_handler delete_spec (http_method delete_post_handler) = None"
    by (simp add: handler_eval delete_spec_def)
  with execute_configuration_error [OF FormHandler_action_names, of "sample_methods True False"
      "\<lparr>opt_action = Some ''delete'', opt_method = Some ''POST'', opt_id = Some ''42''\<rparr>" "[]"]
  have two: "execute delete_post_handler [] =
     (Inl (Error ''No defined handler for this method.''), [], [])"
    unfolding delete_post_handler_def by blast
  have "map_of (actions put_handler) (action put_handler) = Some create_spec \<and>
    verb_handler put_handler create_spec (http_method put_handler) = None"
    by (simp add: handler_eval create_spec_def)
  with execute_configuration_error [OF FormHandler_action_names, of "sample_methods True False"
      "\<lparr>opt_action = Some ''create'', opt_method = Some ''PUT'', opt_id = None\<rparr>" "[]"]
  have three: "execute put_handler [] =
     (Inl (Error ''No defined handler for this method.''), [], [])"
    unfolding put_handler_def by blast
  from one two three show ?thesis by simp
qed

text \<open>
  C1, as stated. An \<^verbatim>\<open>edit\<close> handler whose action is configured with the title
  \<^verbatim>\<open>edit review title\<close> and whose loader resolves to a deleted resource: the 404 template is
  rendered with the title key \<^verbatim>\<open>page not found title\<close>, not with the action's title key.
\<close>

theorem action_titleKey_counterexample:
  "action_titleKey (edit_handler True True) = Some ''edit review title'' \<and>
   resource_id (edit_handler True True) = Some ''42'' \<and>
   execute (edit_handler True True) [] =
     (Inr (),
      [CheckCall 0, CheckCall 1, LoadDataCall, Status 404,
       Template ''404'' \<lparr>ctx_titleKey = Some ''page not found title'', ctx_id = Some ''42''\<rparr>],
      [''userIsSignedIn'', ''userIsTrusted'', ''loadData'']) \<and>
   Template ''404'' \<lparr>ctx_titleKey = action_titleKey (edit_handler True True),
                     ctx_id = resource_id (edit_handler True True)\<rparr>
     \<notin> set (fst (snd (execute (edit_handler True True) [])))"
  by (simp add: action_titleKey_def handler_eval execute_def on_data_def on_error_def Error_def)

text \<open>
  C1, amended. When the action is recognized, has a handler for the method and a loader,
  every pre-flight check passes and \<^verbatim>\<open>this.loadData()\<close> resolves to a resource whose
  \<^verbatim>\<open>_revDeleted\<close> is true, \<^verbatim>\<open>execute\<close> sets the status 404 and renders the handler's
  \<^verbatim>\<open>documentNotFoundTemplate\<close> with the handler's \<^verbatim>\<open>documentNotFoundTitleKey\<close> and its
  resource id (the constructor sets them to \<^verbatim>\<open>404\<close> and \<^verbatim>\<open>page not found title\<close>);
  neither the permission check nor the verb handler is called.
\<close>

theorem deleted_resource_renders_not_found:
  assumes "map_of (actions h) (action h) = Some a"
    and "verb_handler h a (http_method h) = Some v"
    and "False \<notin> set (check_results (preFlightChecks a) w)"
    and "loadData a = Some l" and "this_loadData h = Some ld"
    and "ld (after_checks (preFlightChecks a) w) = (Inr (Some d), w')"
    and "revDeleted d"
  shows "execute h w =
           (Inr (),
            map CheckCall [0 ..< length (preFlightChecks a)] @
              [LoadDataCall, Status 404,
               Template (documentNotFoundTemplate h)
                 \<lparr>ctx_titleKey = Some (documentNotFoundTitleKey h), ctx_id = resource_id h\<rparr>],
            w') \<and>
         (\<forall>m x. VerbCall m x \<notin> set (fst (snd (execute h w))))"
proof -
  from assms have ex: "execute h w =
           (Inr (),
            map CheckCall [0 ..< length (preFlightChecks a)] @
              [LoadDataCall, Status 404,
               Template (documentNotFoundTemplate h)
                 \<lparr>ctx_titleKey = Some (documentNotFoundTitleKey h), ctx_id = resource_id h\<rparr>],
            w')"
    by (simp add: execute_def run_checks_eq on_data_def on_error_def Error_def)
  then show ?thesis by auto
qed

theorem deleted_resource_renders_not_found_witness:
  "execute (edit_handler True True) [] =
     (Inr (),
      [CheckCall 0, CheckCall 1, LoadDataCall, Status 404,
       Template ''404'' \<lparr>ctx_titleKey = Some ''page not found title'', ctx_id = Some ''42''\<rparr>],
      [''userIsSignedIn'', ''userIsTrusted'', ''loadData'']) \<and>
   VerbCall ''GET'' (Some \<lparr>revDeleted = True\<rparr>)
     \<notin> set (fst (snd (execute (edit_handler True True) [])))"
proof -
  have checks: "False \<notin> set (check_results (preFlightChecks (edit_spec True True)) [])"
    by (simp add: edit_spec_def)
  have l: "loadData (edit_spec True True) =
      Some (\<lambda>w. (Inr (Some \<lparr>revDeleted = True\<rparr>), w @ [''loadData'']))"
    "this_loadData (edit_handler True True) =
      Some (\<lambda>w. (Inr (Some \<lparr>revDeleted = True\<rparr>), w @ [''loadData'']))"
    by (simp_all add: edit_spec_def handler_eval)
  have r: "(\<lambda>w. (Inr (Some \<lparr>revDeleted = True\<rparr>), w @ [''loadData'']))
             (after_checks (preFlightChecks (edit_spec True True)) []) =
           (Inr (Some \<lparr>revDeleted = True\<rparr>), [''userIsSignedIn'', ''userIsTrusted'', ''loadData''])"
    by (simp add: edit_spec_def)
  have d: "revDeleted \<lparr>revDeleted = True\<rparr>" by simp
  from deleted_resource_renders_not_found [OF edit_handler_action edit_handler_verb checks l r d]
  show ?thesis by (simp add: upt_rec edit_spec_def) (simp add: handler_eval)
qed

end
